theory Spec2Isabelle
  imports Complex_Main "HOL-Library.Finite_Map"
begin

section \<open>Data model\<close>

text \<open>
  Amounts, rates of exchange and fees travel through the sources as numeric strings and
  are computed on with an arbitrary-precision decimal type. A numeric string is
  represented here by the number it denotes; \<open>string | undefined\<close> becomes an option.
  Labels that are only copied (the textual \<open>rate\<close>, addresses, identifiers) stay strings.
\<close>

type_synonym BigNumber = rat
type_synonym AssetId = string
type_synonym ChainId = string

record Asset =
  assetId :: AssetId
  chainId :: ChainId
  precision :: nat

text \<open>
  The provider identities. The sources name \<open>SwapperName.CowSwap\<close> and
  \<open>SwapperName.ArbitrumBridge\<close>; the enumeration's declaration lies in the swapper
  package, so every other member is carried by its name.
\<close>

datatype SwapperName = CowSwap | ArbitrumBridge | OtherSwapper string

record FeeData =
  protocolFees :: "(AssetId, BigNumber) fmap"
  networkFeeCryptoBaseUnit :: "BigNumber option"

record TradeQuoteStep =
  estimatedExecutionTimeMs :: nat
  allowanceContract :: string
  rate :: string
  buyAsset :: Asset
  sellAsset :: Asset
  accountNumber :: nat
  buyAmountBeforeFeesCryptoBaseUnit :: BigNumber
  buyAmountAfterFeesCryptoBaseUnit :: BigNumber
  sellAmountIncludingProtocolFeesCryptoBaseUnit :: BigNumber
  feeData :: FeeData
  source :: SwapperName

datatype Direction = deposit | withdrawal

text \<open>
  A trade quote; \<open>direction\<close> is the Arbitrum bridge's extra field, absent on the
  quotes of the other swappers (\<open>'direction' in quote\<close>).
\<close>

record TradeQuote =
  id :: string
  receiveAddress :: string
  affiliateBps :: string
  potentialAffiliateBps :: string
  rate :: string
  slippageTolerancePercentageDecimal :: string
  steps :: "TradeQuoteStep list"
  direction :: "Direction option"

datatype TradeQuoteError =
  NetworkFeeEstimationFailed | OtherTradeQuoteError string

record SwapErrorRight =
  message :: string
  cause :: "string option"
  code :: "TradeQuoteError option"

section \<open>The Arbitrum bridge quote (\<open>getTradeQuote\<close>)\<close>

record GetEvmTradeQuoteInput =
  chainId :: ChainId
  sellAsset :: Asset
  buyAsset :: Asset
  accountNumber :: nat
  supportsEIP1559 :: bool
  receiveAddress :: string
  sellAmountIncludingProtocolFeesCryptoBaseUnit :: BigNumber
  sendAddress :: "string option"

datatype ArbitrumBridgeSwap =
  ArbitrumBridgeSwap (swapAllowanceContract: string) (swapNetworkFeeCryptoBaseUnit: "BigNumber option")

text \<open>
  What \<open>getTradeQuote\<close> receives from outside its module: the outcome of
  \<open>assertValidTrade\<close> (a \<open>Result\<close>), the outcome of \<open>fetchArbitrumBridgeSwap\<close>
  (\<open>Inl\<close> is the exception it throws), the identifier \<open>uuid()\<close> draws, and the
  constants \<open>ethChainId\<close> and the default slippage of the bridge.
\<close>

record SwapperDeps =
  assertValidTrade :: "Asset \<Rightarrow> Asset \<Rightarrow> SwapErrorRight + bool"
  fetchArbitrumBridgeSwap ::
    "bool \<Rightarrow> ChainId \<Rightarrow> Asset \<Rightarrow> BigNumber \<Rightarrow> Asset \<Rightarrow> string \<Rightarrow> string
      \<Rightarrow> string + ArbitrumBridgeSwap"
  uuid :: string
  ethChainId :: ChainId
  defaultSlippageArbitrumBridge :: string

definition getTradeQuote ::
  "GetEvmTradeQuoteInput \<Rightarrow> SwapperDeps \<Rightarrow> SwapErrorRight + TradeQuote" where
  "getTradeQuote input deps =
    (case assertValidTrade deps (GetEvmTradeQuoteInput.buyAsset input)
            (GetEvmTradeQuoteInput.sellAsset input) of
       Inl e \<Rightarrow> Inl e
     | Inr _ \<Rightarrow>
        (let isDeposit =
               (Asset.chainId (GetEvmTradeQuoteInput.sellAsset input) = ethChainId deps);
             estimatedExecutionTimeMs' =
               (if isDeposit then 15 * 60 * 1000 else 7 * 24 * 60 * 60 * 1000);
             rate' = ''1''
         in case fetchArbitrumBridgeSwap deps
                   (supportsEIP1559 input)
                   (GetEvmTradeQuoteInput.chainId input)
                   (GetEvmTradeQuoteInput.buyAsset input)
                   (GetEvmTradeQuoteInput.sellAmountIncludingProtocolFeesCryptoBaseUnit input)
                   (GetEvmTradeQuoteInput.sellAsset input)
                   (case sendAddress input of None \<Rightarrow> '''' | Some a \<Rightarrow> a)
                   (GetEvmTradeQuoteInput.receiveAddress input) of
              Inl err \<Rightarrow>
                Inl \<lparr> message = ''[ArbitrumBridge: tradeQuote] - failed to get fee data'',
                      cause = Some err,
                      code = Some NetworkFeeEstimationFailed \<rparr>
            | Inr swap \<Rightarrow>
               (let buyAmountBeforeFeesCryptoBaseUnit' =
                      GetEvmTradeQuoteInput.sellAmountIncludingProtocolFeesCryptoBaseUnit input;
                    buyAmountAfterFeesCryptoBaseUnit' =
                      GetEvmTradeQuoteInput.sellAmountIncludingProtocolFeesCryptoBaseUnit input
                in Inr \<lparr> TradeQuote.id = uuid deps,
                         TradeQuote.receiveAddress = GetEvmTradeQuoteInput.receiveAddress input,
                         affiliateBps = ''0'',
                         potentialAffiliateBps = ''0'',
                         TradeQuote.rate = rate',
                         slippageTolerancePercentageDecimal = defaultSlippageArbitrumBridge deps,
                         steps =
                           [\<lparr> estimatedExecutionTimeMs = estimatedExecutionTimeMs',
                              allowanceContract = swapAllowanceContract swap,
                              TradeQuoteStep.rate = rate',
                              TradeQuoteStep.buyAsset = GetEvmTradeQuoteInput.buyAsset input,
                              TradeQuoteStep.sellAsset = GetEvmTradeQuoteInput.sellAsset input,
                              TradeQuoteStep.accountNumber =
                                GetEvmTradeQuoteInput.accountNumber input,
                              buyAmountBeforeFeesCryptoBaseUnit =
                                buyAmountBeforeFeesCryptoBaseUnit',
                              buyAmountAfterFeesCryptoBaseUnit =
                                buyAmountAfterFeesCryptoBaseUnit',
                              TradeQuoteStep.sellAmountIncludingProtocolFeesCryptoBaseUnit =
                                GetEvmTradeQuoteInput.sellAmountIncludingProtocolFeesCryptoBaseUnit
                                  input,
                              feeData =
                                \<lparr> protocolFees = fmempty,
                                  networkFeeCryptoBaseUnit = swapNetworkFeeCryptoBaseUnit swap \<rparr>,
                              source = ArbitrumBridge \<rparr>],
                         direction = Some (if isDeposit then deposit else withdrawal) \<rparr>)))"

definition exampleAsset :: "AssetId \<Rightarrow> ChainId \<Rightarrow> nat \<Rightarrow> Asset" where
  "exampleAsset a c p = \<lparr> assetId = a, Asset.chainId = c, precision = p \<rparr>"

definition exampleInput :: GetEvmTradeQuoteInput where
  "exampleInput =
     \<lparr> GetEvmTradeQuoteInput.chainId = ''eip155:1'',
       GetEvmTradeQuoteInput.sellAsset = exampleAsset ''eth'' ''eip155:1'' 18,
       GetEvmTradeQuoteInput.buyAsset = exampleAsset ''eth.arb'' ''eip155:42161'' 18,
       GetEvmTradeQuoteInput.accountNumber = 0,
       supportsEIP1559 = True,
       GetEvmTradeQuoteInput.receiveAddress = ''0xreceiver'',
       GetEvmTradeQuoteInput.sellAmountIncludingProtocolFeesCryptoBaseUnit = 100,
       sendAddress = None \<rparr>"

definition exampleDeps :: SwapperDeps where
  "exampleDeps =
     \<lparr> assertValidTrade = (\<lambda>_ _. Inr True),
       fetchArbitrumBridgeSwap =
         (\<lambda>_ _ _ _ _ _ _. Inr (ArbitrumBridgeSwap ''0xallowance'' (Some 21000))),
       uuid = ''quote-1'',
       ethChainId = ''eip155:1'',
       defaultSlippageArbitrumBridge = ''0'' \<rparr>"

section \<open>The trade quote slice and its selectors\<close>

datatype TradeQuoteRequestError = NoQuotesAvailable | OtherRequestError string

datatype TradeQuoteWarning = UnsafeQuote | OtherWarning string

record 'e ErrorWithMeta =
  error :: 'e
  meta :: "string option"

text \<open>
  One provider's response for one route identifier: a route, warnings, or errors. The
  selectors read \<open>quote\<close>, \<open>errors\<close>, \<open>warnings\<close> and \<open>swapperName\<close>; \<open>id\<close> is the
  route identifier the response is stored under.
\<close>

record ApiQuote =
  id :: string
  quote :: "TradeQuote option"
  swapperName :: SwapperName
  errors :: "TradeQuoteError ErrorWithMeta list"
  warnings :: "TradeQuoteWarning ErrorWithMeta list"

record ActiveQuoteMeta =
  swapperName :: SwapperName
  "identifier" :: string

type_synonym TradeQuotes = "(SwapperName, (string, ApiQuote) fmap) fmap"

text \<open>
  Modelled from the spec: the slice's state declaration and reducers are not among the
  sources. Per hop the spec (3, 4.5) keeps the lifecycle state (\<open>Idle\<close>,
  \<open>AwaitingSignature\<close>, \<open>Broadcasting\<close>, \<open>Confirming\<close>, \<open>Succeeded\<close>, \<open>Failed\<close>),
  the last known sell and buy transaction identifiers and the last status message.
\<close>

datatype HopLifecycle =
  Idle | AwaitingSignature | Broadcasting | Confirming | Succeeded | Failed

record HopExecutionMetadata =
  state :: HopLifecycle
  sellTxHash :: "string option"
  buyTxHash :: "string option"
  message :: "string option"

record TradeExecution =
  firstHop :: HopExecutionMetadata
  secondHop :: HopExecutionMetadata

record TradeQuoteSliceState =
  activeQuoteMeta :: "ActiveQuoteMeta option"
  tradeQuotes :: TradeQuotes
  confirmedQuote :: "TradeQuote option"
  activeStep :: "nat option"
  tradeExecution :: TradeExecution

record MarketData =
  price :: BigNumber

type_synonym FeatureFlags = "(string, bool) fmap"

text \<open>
  The store. \<open>tradeQuoteSlice\<close> is the slice of these selectors; the selectors of the
  other slices are fields named after them, holding what they return on this state.
\<close>

record ReduxState =
  tradeQuoteSlice :: TradeQuoteSliceState
  selectFeatureFlags :: FeatureFlags
  selectInputSellAmountCryptoBaseUnit :: "BigNumber option"
  selectIsWalletConnected :: bool
  selectWalletConnectedChainIds :: "ChainId list"
  selectManualReceiveAddress :: "string option"
  selectSellAssetBalanceCryptoBaseUnit :: BigNumber
  selectInputSellAsset :: Asset
  selectInputBuyAsset :: Asset
  selectFeeAssetById :: "AssetId \<Rightarrow> Asset option"
  selectMarketDataUserCurrency :: "(AssetId, MarketData) fmap"

text \<open>
  The functions the selectors import from modules that are not among the sources
  (\<open>state/helpers\<close>, \<open>validateQuoteRequest\<close>, the slice's \<open>helpers\<close>, \<open>lib/math\<close>) and
  the value list of the \<open>SwapperName\<close> enumeration. Every selector below takes them
  as the parameter \<open>H\<close>, so what is proved of a selector holds whatever they compute,
  unless a theorem fixes one of them.
\<close>

record Helpers =
  swapperNames :: "SwapperName list"
  getEnabledSwappers :: "FeatureFlags \<Rightarrow> bool \<Rightarrow> SwapperName \<Rightarrow> bool"
  validateQuoteRequest ::
    "bool \<Rightarrow> ChainId list \<Rightarrow> string option \<Rightarrow> BigNumber \<Rightarrow> BigNumber option \<Rightarrow> Asset \<Rightarrow> Asset
      \<Rightarrow> TradeQuoteRequestError ErrorWithMeta list"
  sortTradeQuotes :: "TradeQuotes \<Rightarrow> ApiQuote list"
  getActiveQuoteMetaOrDefault ::
    "ActiveQuoteMeta option \<Rightarrow> ApiQuote list \<Rightarrow> ActiveQuoteMeta option"
  fromBaseUnit :: "BigNumber \<Rightarrow> nat \<Rightarrow> BigNumber"
  getHopTotalNetworkFeeUserCurrencyPrecision ::
    "BigNumber option \<Rightarrow> Asset \<Rightarrow> (unit \<Rightarrow> BigNumber) \<Rightarrow> BigNumber option"

text \<open>
  Modelled from the spec: \<open>bnOrZero\<close> (\<open>lib/bignumber\<close>) is not among the sources. The
  spec treats an absent, invalid or zero amount alike; with a numeric string
  represented by its number, a value that is undefined or not a number (\<open>None\<close>)
  reads as zero.
\<close>

definition bnOrZero :: "BigNumber option \<Rightarrow> BigNumber" where
  "bnOrZero n = (case n of None \<Rightarrow> 0 | Some v \<Rightarrow> v)"

text \<open>
  Modelled from the spec: \<open>getHopByIndex\<close> belongs to the swapper package. A route is
  an ordered sequence of hops; the hop at an index is absent when the route is absent
  or has no hop there.
\<close>

definition getHopByIndex :: "TradeQuote option \<Rightarrow> nat \<Rightarrow> TradeQuoteStep option" where
  "getHopByIndex q stepIndex =
     (case q of
        None \<Rightarrow> None
      | Some tq \<Rightarrow> if stepIndex < length (steps tq) then Some (steps tq ! stepIndex) else None)"

definition selectTradeQuoteSlice :: "ReduxState \<Rightarrow> TradeQuoteSliceState" where
  "selectTradeQuoteSlice s = tradeQuoteSlice s"

definition selectActiveQuoteMeta :: "ReduxState \<Rightarrow> ActiveQuoteMeta option" where
  "selectActiveQuoteMeta s = activeQuoteMeta (selectTradeQuoteSlice s)"

definition selectTradeQuotes :: "ReduxState \<Rightarrow> TradeQuotes" where
  "selectTradeQuotes s = tradeQuotes (selectTradeQuoteSlice s)"

definition selectEnabledSwappersIgnoringCrossAccountTrade ::
  "Helpers \<Rightarrow> ReduxState \<Rightarrow> SwapperName list" where
  "selectEnabledSwappersIgnoringCrossAccountTrade H s =
     (let enabledSwappers = getEnabledSwappers H (selectFeatureFlags s) False
      in filter (\<lambda>swapperName'. enabledSwappers swapperName') (swapperNames H))"

text \<open>
  The two availability selectors build a \<open>Record<SwapperName, boolean>\<close> with
  \<open>reduce\<close> over the enabled swappers, starting from the empty object.
\<close>

definition selectIsSwapperResponseAvailable ::
  "Helpers \<Rightarrow> ReduxState \<Rightarrow> (SwapperName, bool) fmap" where
  "selectIsSwapperResponseAvailable H s =
     (let tradeQuotes' = selectTradeQuotes s;
          enabledSwappers = selectEnabledSwappersIgnoringCrossAccountTrade H s
      in fold (\<lambda>swapperName' acc.
                 (let swapperResponse = fmlookup tradeQuotes' swapperName'
                  in fmupd swapperName' (swapperResponse \<noteq> None) acc))
              enabledSwappers fmempty)"

definition selectIsSwapperQuoteAvailable ::
  "Helpers \<Rightarrow> ReduxState \<Rightarrow> (SwapperName, bool) fmap" where
  "selectIsSwapperQuoteAvailable H s =
     (let tradeQuotes' = selectTradeQuotes s;
          enabledSwappers = selectEnabledSwappersIgnoringCrossAccountTrade H s
      in fold (\<lambda>swapperName' acc.
                 (let swapperResponse = fmlookup tradeQuotes' swapperName'
                  in fmupd swapperName'
                       (case swapperResponse of
                          None \<Rightarrow> False
                        | Some r \<Rightarrow> \<not> fmpred (\<lambda>_ swapperQuote. quote swapperQuote = None) r)
                       acc))
              enabledSwappers fmempty)"

definition selectTradeQuoteRequestErrors ::
  "Helpers \<Rightarrow> ReduxState \<Rightarrow> TradeQuoteRequestError ErrorWithMeta list" where
  "selectTradeQuoteRequestErrors H s =
     (let inputSellAmountCryptoBaseUnit = selectInputSellAmountCryptoBaseUnit s;
          hasUserEnteredAmount = (bnOrZero inputSellAmountCryptoBaseUnit > 0)
      in if \<not> hasUserEnteredAmount then []
         else validateQuoteRequest H
                (selectIsWalletConnected s)
                (selectWalletConnectedChainIds s)
                (selectManualReceiveAddress s)
                (selectSellAssetBalanceCryptoBaseUnit s)
                inputSellAmountCryptoBaseUnit
                (selectInputSellAsset s)
                (selectInputBuyAsset s))"

definition selectTradeQuoteResponseErrors ::
  "Helpers \<Rightarrow> ReduxState \<Rightarrow> TradeQuoteRequestError ErrorWithMeta list" where
  "selectTradeQuoteResponseErrors H s =
     (let inputSellAmountCryptoBaseUnit = selectInputSellAmountCryptoBaseUnit s;
          swappersApiTradeQuotes = selectTradeQuotes s;
          enabledSwappers = selectEnabledSwappersIgnoringCrossAccountTrade H s;
          hasUserEnteredAmount = (bnOrZero inputSellAmountCryptoBaseUnit > 0)
      in if \<not> hasUserEnteredAmount then []
         else
           (let numSwappers = length enabledSwappers
            in if fcard (fmdom swappersApiTradeQuotes) < numSwappers then []
               else if fmpred (\<lambda>_ quotes. fcard (fmdom quotes) = 0) swappersApiTradeQuotes
                    then [\<lparr> error = NoQuotesAvailable, meta = None \<rparr>]
                    else []))"

text \<open>
  The notions of the response-error claim in the selectors' terms: \<open>NoQuotesAvailable\<close>
  is among the response errors; every enabled swapper has a response
  (\<open>selectIsSwapperResponseAvailable\<close> is true throughout); no enabled swapper's response
  holds a route (\<open>selectIsSwapperQuoteAvailable\<close> is false throughout).
\<close>

definition noQuotesAvailableProduced :: "Helpers \<Rightarrow> ReduxState \<Rightarrow> bool" where
  "noQuotesAvailableProduced H s \<longleftrightarrow>
     NoQuotesAvailable \<in> set (map error (selectTradeQuoteResponseErrors H s))"

definition everyEnabledSwapperHasResponse :: "Helpers \<Rightarrow> ReduxState \<Rightarrow> bool" where
  "everyEnabledSwapperHasResponse H s \<longleftrightarrow>
     fmpred (\<lambda>_ available. available) (selectIsSwapperResponseAvailable H s)"

definition noUsableRoute :: "Helpers \<Rightarrow> ReduxState \<Rightarrow> bool" where
  "noUsableRoute H s \<longleftrightarrow>
     fmpred (\<lambda>_ available. \<not> available) (selectIsSwapperQuoteAvailable H s)"

definition selectSortedTradeQuotes :: "Helpers \<Rightarrow> ReduxState \<Rightarrow> ApiQuote list" where
  "selectSortedTradeQuotes H s = sortTradeQuotes H (selectTradeQuotes s)"

definition selectActiveStepOrDefault :: "ReduxState \<Rightarrow> nat" where
  "selectActiveStepOrDefault s =
     (case activeStep (selectTradeQuoteSlice s) of None \<Rightarrow> 0 | Some n \<Rightarrow> n)"

definition selectConfirmedQuote :: "ReduxState \<Rightarrow> TradeQuote option" where
  "selectConfirmedQuote s = confirmedQuote (selectTradeQuoteSlice s)"

definition selectActiveQuoteMetaOrDefault ::
  "Helpers \<Rightarrow> ReduxState \<Rightarrow> ActiveQuoteMeta option" where
  "selectActiveQuoteMetaOrDefault H s =
     getActiveQuoteMetaOrDefault H (selectActiveQuoteMeta s) (selectSortedTradeQuotes H s)"

text \<open>\<open>tradeQuotes[swapperName]?.[identifier]\<close>\<close>

definition lookupApiQuote :: "TradeQuotes \<Rightarrow> ActiveQuoteMeta \<Rightarrow> ApiQuote option" where
  "lookupApiQuote tq m =
     (case fmlookup tq (ActiveQuoteMeta.swapperName m) of
        None \<Rightarrow> None
      | Some quotes \<Rightarrow> fmlookup quotes (identifier m))"

definition selectActiveSwapperName :: "Helpers \<Rightarrow> ReduxState \<Rightarrow> SwapperName option" where
  "selectActiveSwapperName H s =
     (case selectActiveQuoteMetaOrDefault H s of
        None \<Rightarrow> None
      | Some activeQuoteMetaOrDefault \<Rightarrow>
          (case lookupApiQuote (selectTradeQuotes s) activeQuoteMetaOrDefault of
             Some _ \<Rightarrow> Some (ActiveQuoteMeta.swapperName activeQuoteMetaOrDefault)
           | None \<Rightarrow> None))"

definition selectActiveSwapperApiResponse :: "Helpers \<Rightarrow> ReduxState \<Rightarrow> ApiQuote option" where
  "selectActiveSwapperApiResponse H s =
     (case selectActiveQuoteMetaOrDefault H s of
        None \<Rightarrow> None
      | Some activeQuoteMeta' \<Rightarrow> lookupApiQuote (selectTradeQuotes s) activeQuoteMeta')"

definition selectActiveQuote :: "Helpers \<Rightarrow> ReduxState \<Rightarrow> TradeQuote option" where
  "selectActiveQuote H s =
     (let response = selectActiveSwapperApiResponse H s
      in case selectConfirmedQuote s of
           Some confirmedQuote' \<Rightarrow> Some confirmedQuote'
         | None \<Rightarrow> (case response of None \<Rightarrow> None | Some r \<Rightarrow> quote r))"

definition selectFirstHop :: "Helpers \<Rightarrow> ReduxState \<Rightarrow> TradeQuoteStep option" where
  "selectFirstHop H s = getHopByIndex (selectActiveQuote H s) 0"

text \<open>
  \<open>steps.length - 1\<close> is \<open>-1\<close> for a quote without steps, where no hop is found; the
  truncated subtraction gives index 0, where none is found either.
\<close>

definition selectLastHop :: "Helpers \<Rightarrow> ReduxState \<Rightarrow> TradeQuoteStep option" where
  "selectLastHop H s =
     (case selectActiveQuote H s of
        None \<Rightarrow> None
      | Some q \<Rightarrow> (let stepIndex = length (steps q) - 1 in getHopByIndex (Some q) stepIndex))"

definition selectSecondHop :: "Helpers \<Rightarrow> ReduxState \<Rightarrow> TradeQuoteStep option" where
  "selectSecondHop H s = getHopByIndex (selectActiveQuote H s) 1"

definition selectFirstHopSellAsset :: "Helpers \<Rightarrow> ReduxState \<Rightarrow> Asset option" where
  "selectFirstHopSellAsset H s =
     (case selectFirstHop H s of
        Some firstHop' \<Rightarrow> Some (TradeQuoteStep.sellAsset firstHop') | None \<Rightarrow> None)"

definition selectSecondHopSellAsset :: "Helpers \<Rightarrow> ReduxState \<Rightarrow> Asset option" where
  "selectSecondHopSellAsset H s =
     (case selectSecondHop H s of
        Some secondHop' \<Rightarrow> Some (TradeQuoteStep.sellAsset secondHop') | None \<Rightarrow> None)"

definition selectLastHopSellAsset :: "Helpers \<Rightarrow> ReduxState \<Rightarrow> Asset option" where
  "selectLastHopSellAsset H s =
     (case selectLastHop H s of
        Some lastHop \<Rightarrow> Some (TradeQuoteStep.sellAsset lastHop) | None \<Rightarrow> None)"

text \<open>\<open>selectFeeAssetById(state, asset?.assetId ?? '')\<close>\<close>

definition selectFirstHopSellFeeAsset :: "Helpers \<Rightarrow> ReduxState \<Rightarrow> Asset option" where
  "selectFirstHopSellFeeAsset H s =
     selectFeeAssetById s
       (case selectFirstHopSellAsset H s of Some a \<Rightarrow> assetId a | None \<Rightarrow> '''')"

definition selectSecondHopSellFeeAsset :: "Helpers \<Rightarrow> ReduxState \<Rightarrow> Asset option" where
  "selectSecondHopSellFeeAsset H s =
     selectFeeAssetById s
       (case selectSecondHopSellAsset H s of Some a \<Rightarrow> assetId a | None \<Rightarrow> '''')"

definition selectLastHopSellFeeAsset :: "Helpers \<Rightarrow> ReduxState \<Rightarrow> Asset option" where
  "selectLastHopSellFeeAsset H s =
     selectFeeAssetById s
       (case selectLastHopSellAsset H s of Some a \<Rightarrow> assetId a | None \<Rightarrow> '''')"

definition selectNetworkFeeRequiresBalance :: "Helpers \<Rightarrow> ReduxState \<Rightarrow> bool" where
  "selectNetworkFeeRequiresBalance H s = (selectActiveSwapperName H s \<noteq> Some CowSwap)"

definition selectFirstHopNetworkFeeCryptoBaseUnit ::
  "Helpers \<Rightarrow> ReduxState \<Rightarrow> BigNumber option" where
  "selectFirstHopNetworkFeeCryptoBaseUnit H s =
     (case selectFirstHop H s of
        None \<Rightarrow> None | Some firstHop' \<Rightarrow> networkFeeCryptoBaseUnit (feeData firstHop'))"

definition selectSecondHopNetworkFeeCryptoBaseUnit ::
  "Helpers \<Rightarrow> ReduxState \<Rightarrow> BigNumber option" where
  "selectSecondHopNetworkFeeCryptoBaseUnit H s =
     (case selectSecondHop H s of
        None \<Rightarrow> None | Some secondHop' \<Rightarrow> networkFeeCryptoBaseUnit (feeData secondHop'))"

definition selectLastHopNetworkFeeCryptoBaseUnit ::
  "Helpers \<Rightarrow> ReduxState \<Rightarrow> BigNumber option" where
  "selectLastHopNetworkFeeCryptoBaseUnit H s =
     (case selectLastHop H s of
        None \<Rightarrow> None | Some lastHop \<Rightarrow> networkFeeCryptoBaseUnit (feeData lastHop))"

text \<open>
  The network fee of a hop in the precision of its fee asset; \<open>bn(0).toFixed()\<close> is
  the number zero.
\<close>

definition selectFirstHopNetworkFeeCryptoPrecision :: "Helpers \<Rightarrow> ReduxState \<Rightarrow> BigNumber" where
  "selectFirstHopNetworkFeeCryptoPrecision H s =
     (let networkFeeRequiresBalance = selectNetworkFeeRequiresBalance H s;
          firstHopNetworkFeeCryptoBaseUnit = selectFirstHopNetworkFeeCryptoBaseUnit H s
      in case selectFirstHopSellFeeAsset H s of
           Some firstHopSellFeeAsset \<Rightarrow>
             if networkFeeRequiresBalance
             then fromBaseUnit H (bnOrZero firstHopNetworkFeeCryptoBaseUnit)
                    (precision firstHopSellFeeAsset)
             else 0
         | None \<Rightarrow> 0)"

definition selectSecondHopNetworkFeeCryptoPrecision :: "Helpers \<Rightarrow> ReduxState \<Rightarrow> BigNumber" where
  "selectSecondHopNetworkFeeCryptoPrecision H s =
     (let networkFeeRequiresBalance = selectNetworkFeeRequiresBalance H s;
          secondHopNetworkFeeCryptoBaseUnit = selectSecondHopNetworkFeeCryptoBaseUnit H s
      in case selectSecondHopSellFeeAsset H s of
           Some secondHopSellFeeAsset \<Rightarrow>
             if networkFeeRequiresBalance
             then fromBaseUnit H (bnOrZero secondHopNetworkFeeCryptoBaseUnit)
                    (precision secondHopSellFeeAsset)
             else 0
         | None \<Rightarrow> 0)"

definition selectLastHopNetworkFeeCryptoPrecision :: "Helpers \<Rightarrow> ReduxState \<Rightarrow> BigNumber" where
  "selectLastHopNetworkFeeCryptoPrecision H s =
     (let networkFeeRequiresBalance = selectNetworkFeeRequiresBalance H s;
          lastHopNetworkFeeCryptoBaseUnit = selectLastHopNetworkFeeCryptoBaseUnit H s
      in case selectLastHopSellFeeAsset H s of
           Some lastHopSellFeeAsset \<Rightarrow>
             if networkFeeRequiresBalance
             then fromBaseUnit H (bnOrZero lastHopNetworkFeeCryptoBaseUnit)
                    (precision lastHopSellFeeAsset)
             else 0
         | None \<Rightarrow> 0)"

text \<open>
  The user-currency selectors throw when the fee asset of an existing hop is unknown.
\<close>

datatype SelectorError = MissingFeeAsset AssetId

text \<open>
  The body shared by the first-hop and second-hop user-currency selectors, which
  differ in the hop and fee asset they are given only.
\<close>

definition hopNetworkFeeUserCurrencyPrecision ::
  "Helpers \<Rightarrow> TradeQuoteStep option \<Rightarrow> Asset option \<Rightarrow> (AssetId, MarketData) fmap
    \<Rightarrow> SelectorError + BigNumber option" where
  "hopNetworkFeeUserCurrencyPrecision H tradeQuoteStep feeAsset marketData =
     (case tradeQuoteStep of
        None \<Rightarrow> Inr None
      | Some step \<Rightarrow>
         (case feeAsset of
            None \<Rightarrow> Inl (MissingFeeAsset (assetId (TradeQuoteStep.sellAsset step)))
          | Some fa \<Rightarrow>
             (let getFeeAssetUserCurrencyRate =
                    (\<lambda>_::unit. case fmlookup marketData (assetId fa) of
                                  None \<Rightarrow> 0 | Some md \<Rightarrow> price md)
              in Inr (getHopTotalNetworkFeeUserCurrencyPrecision H
                        (networkFeeCryptoBaseUnit (feeData step)) fa
                        getFeeAssetUserCurrencyRate))))"

definition selectFirstHopNetworkFeeUserCurrencyPrecision ::
  "Helpers \<Rightarrow> ReduxState \<Rightarrow> SelectorError + BigNumber option" where
  "selectFirstHopNetworkFeeUserCurrencyPrecision H s =
     hopNetworkFeeUserCurrencyPrecision H (selectFirstHop H s) (selectFirstHopSellFeeAsset H s)
       (selectMarketDataUserCurrency s)"

definition selectSecondHopNetworkFeeUserCurrencyPrecision ::
  "Helpers \<Rightarrow> ReduxState \<Rightarrow> SelectorError + BigNumber option" where
  "selectSecondHopNetworkFeeUserCurrencyPrecision H s =
     hopNetworkFeeUserCurrencyPrecision H (selectSecondHop H s) (selectSecondHopSellFeeAsset H s)
       (selectMarketDataUserCurrency s)"

definition selectHopNetworkFeeUserCurrencyPrecision ::
  "Helpers \<Rightarrow> ReduxState \<Rightarrow> nat \<Rightarrow> SelectorError + BigNumber option" where
  "selectHopNetworkFeeUserCurrencyPrecision H s hopIndex =
     (case selectFirstHopNetworkFeeUserCurrencyPrecision H s of
        Inl e \<Rightarrow> Inl e
      | Inr firstHopNetworkFeeUserCurrencyPrecision \<Rightarrow>
         (case selectSecondHopNetworkFeeUserCurrencyPrecision H s of
            Inl e \<Rightarrow> Inl e
          | Inr secondHopNetworkFeeUserCurrencyPrecision \<Rightarrow>
              Inr (if hopIndex = 0 then firstHopNetworkFeeUserCurrencyPrecision
                   else secondHopNetworkFeeUserCurrencyPrecision)))"

definition selectTotalNetworkFeeUserCurrencyPrecision ::
  "Helpers \<Rightarrow> ReduxState \<Rightarrow> SelectorError + BigNumber" where
  "selectTotalNetworkFeeUserCurrencyPrecision H s =
     (case selectFirstHopNetworkFeeUserCurrencyPrecision H s of
        Inl e \<Rightarrow> Inl e
      | Inr firstHopNetworkFeeUserCurrencyPrecision \<Rightarrow>
         (case selectSecondHopNetworkFeeUserCurrencyPrecision H s of
            Inl e \<Rightarrow> Inl e
          | Inr secondHopNetworkFeeUserCurrencyPrecision \<Rightarrow>
              Inr (bnOrZero firstHopNetworkFeeUserCurrencyPrecision
                   + (case secondHopNetworkFeeUserCurrencyPrecision of
                        None \<Rightarrow> 0 | Some v \<Rightarrow> v))))"

definition selectHopExecutionMetadata :: "ReduxState \<Rightarrow> nat \<Rightarrow> HopExecutionMetadata" where
  "selectHopExecutionMetadata s hopIndex =
     (let swappers = selectTradeQuoteSlice s
      in if hopIndex = 0 then firstHop (tradeExecution swappers)
         else secondHop (tradeExecution swappers))"

section \<open>Definitions that follow the spec's words\<close>

definition metaOf :: "ApiQuote \<Rightarrow> ActiveQuoteMeta" where
  "metaOf q = \<lparr> ActiveQuoteMeta.swapperName = ApiQuote.swapperName q, identifier = ApiQuote.id q \<rparr>"


text \<open>
  Modelled from the spec: \<open>fromBaseUnit\<close> (\<open>lib/math\<close>) and
  \<open>getHopTotalNetworkFeeUserCurrencyPrecision\<close> (the slice's \<open>helpers\<close>) are not among
  the sources. Base units are the smallest denomination of an asset, \<open>precision\<close>
  decimal places below its unit; a hop's network fee in the common currency is the fee
  in the fee asset's unit times the fee asset's rate, and absent when the hop has no
  network fee.
\<close>

definition specFromBaseUnit :: "BigNumber \<Rightarrow> nat \<Rightarrow> BigNumber" where
  "specFromBaseUnit v decimals = v / 10 ^ decimals"

definition specGetHopTotalNetworkFeeUserCurrencyPrecision ::
  "BigNumber option \<Rightarrow> Asset \<Rightarrow> (unit \<Rightarrow> BigNumber) \<Rightarrow> BigNumber option" where
  "specGetHopTotalNetworkFeeUserCurrencyPrecision networkFee feeAsset getFeeAssetRate =
     (case networkFee of
        None \<Rightarrow> None
      | Some fee \<Rightarrow> Some (specFromBaseUnit fee (precision feeAsset) * getFeeAssetRate ()))"

section \<open>Hop execution (\<open>useTradeExecution\<close>)\<close>

text \<open>
  What a \<open>Fail\<close> or \<open>Error\<close> event carries: \<open>null\<close>/\<open>undefined\<close> (\<open>None\<close>) or an
  object with an optional \<open>message\<close>.
\<close>

datatype Thrown = Thrown "string option"

datatype TradeExecutionEvent =
    SellTxHash string
  | Status "string option" "string option"
  | Success
  | Fail "Thrown option"
  | Error "Thrown option"

datatype TradeQuoteAction =
    setSwapTxPending nat
  | setSwapTxMessage nat "string option"
  | setSwapTxFailed nat
  | setSwapSellTxHash nat string
  | setSwapBuyTxHash nat string
  | setSwapTxComplete nat

text \<open>The execution state of the hop at an index, as \<open>selectHopExecutionMetadata\<close> reads it.\<close>

definition hopOf :: "TradeExecution \<Rightarrow> nat \<Rightarrow> HopExecutionMetadata" where
  "hopOf te hopIndex = (if hopIndex = 0 then firstHop te else secondHop te)"

definition updateHop ::
  "nat \<Rightarrow> (HopExecutionMetadata \<Rightarrow> HopExecutionMetadata) \<Rightarrow> TradeExecution \<Rightarrow> TradeExecution" where
  "updateHop hopIndex f te =
     (if hopIndex = 0 then te\<lparr>firstHop := f (firstHop te)\<rparr>
      else te\<lparr>secondHop := f (secondHop te)\<rparr>)"

text \<open>
  Modelled from the spec: the reducers of \<open>tradeQuoteSlice\<close> are not among the
  sources. Each action carries the hop index it addresses and changes that hop's
  execution state only: the lifecycle state (pending on entry to execution, that is
  awaiting signature; failed; complete, that is succeeded), the last known sell and
  buy transaction identifiers, and the last status message.
\<close>

definition tradeExecutionReducer :: "TradeExecution \<Rightarrow> TradeQuoteAction \<Rightarrow> TradeExecution" where
  "tradeExecutionReducer te a =
     (case a of
        setSwapTxPending hopIndex \<Rightarrow> updateHop hopIndex (\<lambda>h. h\<lparr>state := AwaitingSignature\<rparr>) te
      | setSwapTxMessage hopIndex m \<Rightarrow>
          updateHop hopIndex (\<lambda>h. h\<lparr>HopExecutionMetadata.message := m\<rparr>) te
      | setSwapTxFailed hopIndex \<Rightarrow> updateHop hopIndex (\<lambda>h. h\<lparr>state := Failed\<rparr>) te
      | setSwapSellTxHash hopIndex h' \<Rightarrow> updateHop hopIndex (\<lambda>h. h\<lparr>sellTxHash := Some h'\<rparr>) te
      | setSwapBuyTxHash hopIndex h' \<Rightarrow> updateHop hopIndex (\<lambda>h. h\<lparr>buyTxHash := Some h'\<rparr>) te
      | setSwapTxComplete hopIndex \<Rightarrow> updateHop hopIndex (\<lambda>h. h\<lparr>state := Succeeded\<rparr>) te)"

text \<open>
  What the event handlers of one \<open>executeTrade\<close> call act on: the closure variable
  \<open>txHash\<close>, the store's execution state together with the actions dispatched to it
  (in order), the errors shown by \<open>showErrorToast\<close>, and whether the promise has been
  resolved.
\<close>

record ExecutionContext =
  txHash :: "string option"
  store :: TradeExecution
  dispatched :: "TradeQuoteAction list"
  errorToasts :: "Thrown option list"
  resolved :: bool

definition dispatch :: "TradeQuoteAction \<Rightarrow> ExecutionContext \<Rightarrow> ExecutionContext" where
  "dispatch a c = c\<lparr>store := tradeExecutionReducer (store c) a, dispatched := dispatched c @ [a]\<rparr>"

definition showErrorToast :: "Thrown option \<Rightarrow> ExecutionContext \<Rightarrow> ExecutionContext" where
  "showErrorToast e c = c\<lparr>errorToasts := errorToasts c @ [e]\<rparr>"

definition resolve :: "ExecutionContext \<Rightarrow> ExecutionContext" where
  "resolve c = c\<lparr>resolved := True\<rparr>"

text \<open>The truthiness of a \<open>string | undefined\<close>: defined and not empty.\<close>

definition truthy :: "string option \<Rightarrow> bool" where
  "truthy v = (case v of None \<Rightarrow> False | Some x \<Rightarrow> x \<noteq> [])"

text \<open>\<open>(e ?? { message: undefined }).message\<close>\<close>

definition thrownMessage :: "Thrown option \<Rightarrow> string option" where
  "thrownMessage e = (case e of None \<Rightarrow> None | Some (Thrown m) \<Rightarrow> m)"

definition onFail :: "nat \<Rightarrow> Thrown option \<Rightarrow> ExecutionContext \<Rightarrow> ExecutionContext" where
  "onFail hopIndex e c =
     (let message' = thrownMessage e;
          c1 = dispatch (setSwapTxMessage hopIndex message') c;
          c2 = dispatch (setSwapTxFailed hopIndex) c1;
          c3 = showErrorToast e c2
      in resolve c3)"

definition onSellTxHash :: "nat \<Rightarrow> string \<Rightarrow> ExecutionContext \<Rightarrow> ExecutionContext" where
  "onSellTxHash hopIndex sellTxHash' c =
     dispatch (setSwapSellTxHash hopIndex sellTxHash') (c\<lparr>txHash := Some sellTxHash'\<rparr>)"

text \<open>
  The \<open>Status\<close> handler dispatches the message. For a truthy \<open>buyTxHash\<close> it assigns
  \<open>txHash\<close> and evaluates \<open>tradeQuoteSlice.actions.setSwapBuyTxHash({ hopIndex, buyTxHash })\<close>,
  which builds the action; the action is not handed to \<open>dispatch\<close>.
\<close>

definition onStatus ::
  "nat \<Rightarrow> string option \<Rightarrow> string option \<Rightarrow> ExecutionContext \<Rightarrow> ExecutionContext" where
  "onStatus hopIndex buyTxHash' message' c =
     (let c1 = dispatch (setSwapTxMessage hopIndex message') c
      in if truthy buyTxHash'
         then (let c2 = c1\<lparr>txHash := buyTxHash'\<rparr>;
                   builtAction = setSwapBuyTxHash hopIndex (the buyTxHash')
               in c2)
         else c1)"

definition onSuccess :: "nat \<Rightarrow> string \<Rightarrow> ExecutionContext \<Rightarrow> ExecutionContext" where
  "onSuccess hopIndex transactionSuccessful c =
     (if \<not> truthy (txHash c)
      then resolve (showErrorToast (Some (Thrown (Some ''missing txHash''))) c)
      else (let c1 = dispatch (setSwapTxMessage hopIndex (Some transactionSuccessful)) c;
                c2 = dispatch (setSwapTxComplete hopIndex) c1
            in resolve c2))"

fun handleEvent :: "nat \<Rightarrow> string \<Rightarrow> ExecutionContext \<Rightarrow> TradeExecutionEvent \<Rightarrow> ExecutionContext" where
  "handleEvent hopIndex t c (SellTxHash sellTxHash') = onSellTxHash hopIndex sellTxHash' c"
| "handleEvent hopIndex t c (Status buyTxHash' message') = onStatus hopIndex buyTxHash' message' c"
| "handleEvent hopIndex t c Success = onSuccess hopIndex t c"
| "handleEvent hopIndex t c (Fail e) = onFail hopIndex e c"
| "handleEvent hopIndex t c (Error e) = onFail hopIndex e c"

text \<open>
  \<open>executeTrade\<close> dispatches \<open>setSwapTxPending\<close>, declares \<open>txHash\<close> and registers the
  handlers; the events of the execution then arrive one after the other.
\<close>

definition startExecution :: "nat \<Rightarrow> TradeExecution \<Rightarrow> ExecutionContext" where
  "startExecution hopIndex te =
     dispatch (setSwapTxPending hopIndex)
       \<lparr> txHash = None, store = te, dispatched = [], errorToasts = [], resolved = False \<rparr>"

definition runEvents ::
  "nat \<Rightarrow> string \<Rightarrow> TradeExecution \<Rightarrow> TradeExecutionEvent list \<Rightarrow> ExecutionContext" where
  "runEvents hopIndex t te evs = foldl (handleEvent hopIndex t) (startExecution hopIndex te) evs"

text \<open>An event that is not terminal and carries no transaction identifier.\<close>

fun carriesNoTxHash :: "TradeExecutionEvent \<Rightarrow> bool" where
  "carriesNoTxHash (SellTxHash h) = (h = [])"
| "carriesNoTxHash (Status b m) = (\<not> truthy b)"
| "carriesNoTxHash _ = False"

text \<open>
  The state of an execution in which no transaction identifier has been observed yet:
  \<open>txHash\<close> is falsy, no error has been shown, and the hop is pending.
\<close>

definition noTxHashObserved :: "nat \<Rightarrow> ExecutionContext \<Rightarrow> bool" where
  "noTxHashObserved hopIndex c \<longleftrightarrow>
     \<not> truthy (txHash c) \<and> errorToasts c = []
     \<and> setSwapTxComplete hopIndex \<notin> set (dispatched c)
     \<and> state (hopOf (store c) hopIndex) = AwaitingSignature"

subsection \<open>\<open>executeTrade\<close> and the chain-family dispatch\<close>

text \<open>
  The chain namespace of the hop's sell asset, as \<open>fromChainId\<close> returns it: one of the
  three constants of \<open>CHAIN_NAMESPACE\<close> the \<open>switch\<close> lists, or any other string.
\<close>

datatype ChainNamespace = Evm | Utxo | CosmosSdk | OtherNamespace string

text \<open>
  The call of the \<open>TradeExecution\<close> object a branch ends in, with what the branch
  derived for it: \<open>execEvmMessage\<close> with \<open>from\<close>; \<open>execEvmTransaction\<close> with \<open>from\<close>,
  \<open>supportsEIP1559\<close> and the \<open>receiverAddress\<close> its sign-and-broadcast callback
  captures; \<open>execUtxoTransaction\<close> with \<open>xpub\<close>, \<open>accountType\<close> and the captured
  \<open>senderAddress\<close> and \<open>receiverAddress\<close>; \<open>execCosmosSdkTransaction\<close> with \<open>from\<close> and
  the captured receive address of the quote.
\<close>

datatype ExecutionStrategy =
    execEvmMessage string
  | execEvmTransaction string bool string
  | execUtxoTransaction string string string string
  | execCosmosSdkTransaction string string

text \<open>
  What \<open>executeTrade\<close> throws: its five guards, the missing step
  (\<open>tradeQuote.steps[hopIndex]\<close> undefined), the UTXO guard, and whatever a function
  it calls (a chain adapter, the wallet, \<open>assertUnreachable\<close>) throws or rejects with.
\<close>

datatype ExecuteTradeError =
    MissingWallet | MissingAccountMetadata | MissingTradeQuote | MissingSwapperName
  | MissingSellAssetAccountId | MissingStep | MissingUtxoAccountType
  | CapabilityFailed string

text \<open>
  The two places an error is thrown from are kept apart. The guards throw before the
  promise exists: \<open>executeTrade\<close> itself throws (\<open>Threw\<close>). Everything after them runs
  inside \<open>new Promise(async resolve => ...)\<close>: the promise is returned
  (\<open>Promised\<close>) with the context its executor has set up, \<open>setSwapTxPending\<close>
  dispatched and the handlers registered, and the executor either throws
  (\<open>ExecutorThrew\<close>; nothing in the executor catches it and \<open>resolve\<close> has not been
  called), or reaches a call of the \<open>TradeExecution\<close> object (\<open>Started\<close>), or runs off
  the end of the \<open>switch\<close> with neither (\<open>Returned\<close>).
\<close>

datatype ExecutorOutcome =
  ExecutorThrew ExecuteTradeError | Started ExecutionStrategy | Returned

datatype ExecuteTradeResult = Threw ExecuteTradeError | Promised ExecutionContext ExecutorOutcome

record AccountMetadata =
  accountType :: "string option"
  bip44AccountNumber :: nat

text \<open>
  A chain adapter, as far as the executor calls it before the strategy is reached:
  \<open>getAddress({ accountNumber, accountType?, wallet })\<close> and
  \<open>getPublicKey(wallet, accountNumber, accountType)\<close>, which yields the \<open>xpub\<close>.
  \<open>Inl\<close> is what the call throws or rejects with.
\<close>

record ChainAdapter =
  getAddress :: "nat \<Rightarrow> string option \<Rightarrow> string + string"
  getPublicKey :: "nat \<Rightarrow> string \<Rightarrow> string + string"

text \<open>
  What the executor imports or is handed and calls outside the \<open>TradeExecution\<close>
  object: \<open>fromChainId\<close>, the three \<open>assertGet...ChainAdapter\<close> functions, the wallet's
  \<open>supportsETH(wallet) && (await wallet.ethSupportsEIP1559())\<close>, the constant
  \<open>bchAssetId\<close>, and \<open>assertUnreachable\<close> (\<open>lib/utils\<close>), called with the chain namespace.
  None of them is among the sources; they are parameters. \<open>Inl\<close> is what a call throws
  or rejects with, \<open>Inr\<close> what it returns.
\<close>

record Capabilities =
  fromChainId :: "ChainId \<Rightarrow> ChainNamespace"
  assertGetEvmChainAdapter :: "ChainId \<Rightarrow> string + ChainAdapter"
  assertGetUtxoChainAdapter :: "ChainId \<Rightarrow> string + ChainAdapter"
  assertGetCosmosSdkChainAdapter :: "ChainId \<Rightarrow> string + ChainAdapter"
  ethSupportsEIP1559 :: "string + bool"
  bchAssetId :: AssetId
  assertUnreachable :: "string \<Rightarrow> string + unit"

text \<open>
  A call or an \<open>await\<close> inside the executor: what it throws leaves the executor, its
  value goes to the statements after it.
\<close>

definition await ::
  "string + 'a \<Rightarrow> ('a \<Rightarrow> ExecuteTradeError + 'b) \<Rightarrow> ExecuteTradeError + 'b" where
  "await r k = (case r of Inl thrown \<Rightarrow> Inl (CapabilityFailed thrown) | Inr v \<Rightarrow> k v)"

text \<open>\<open>s.replace(pattern, '')\<close> for a string pattern: the first occurrence is removed.\<close>

fun removeFirst :: "string \<Rightarrow> string \<Rightarrow> string" where
  "removeFirst pat [] = []"
| "removeFirst pat (c # cs) =
     (if take (length pat) (c # cs) = pat then drop (length pat) (c # cs)
      else c # removeFirst pat cs)"

record HookInputs =
  wallet :: bool
  accountMetadata :: "AccountMetadata option"
  tradeQuote :: "TradeQuote option"
  swapperName :: "SwapperName option"
  sellAssetAccountId :: "string option"

text \<open>
  \<open>const receiverAddress = tradeQuote.receiveAddress && stepBuyAssetAssetId === bchAssetId
  ? tradeQuote.receiveAddress.replace('bitcoincash:', '') : tradeQuote.receiveAddress\<close>
\<close>

definition hopReceiverAddress :: "Capabilities \<Rightarrow> TradeQuote \<Rightarrow> AssetId \<Rightarrow> string" where
  "hopReceiverAddress caps tq stepBuyAssetAssetId =
     (if truthy (Some (TradeQuote.receiveAddress tq)) \<and> stepBuyAssetAssetId = bchAssetId caps
      then removeFirst ''bitcoincash:'' (TradeQuote.receiveAddress tq)
      else TradeQuote.receiveAddress tq)"

text \<open>
  \<open>const senderAddress = stepSellAssetAssetId === bchAssetId
  ? _senderAddress.replace('bitcoincash:', '') : _senderAddress\<close>
\<close>

definition hopSenderAddress :: "Capabilities \<Rightarrow> AssetId \<Rightarrow> string \<Rightarrow> string" where
  "hopSenderAddress caps stepSellAssetAssetId senderAddress' =
     (if stepSellAssetAssetId = bchAssetId caps then removeFirst ''bitcoincash:'' senderAddress'
      else senderAddress')"

text \<open>
  \<open>executeTrade\<close>, top to bottom: the five guards; the promise, whose executor
  dispatches \<open>setSwapTxPending\<close> and registers the handlers (\<open>startExecution\<close>), reads
  the step, takes the CowSwap branch or else the \<open>switch\<close> on the chain namespace of
  the step's sell asset, and in each branch calls the chain adapter and the wallet
  before it reaches the call of the \<open>TradeExecution\<close> object. The \<open>default\<close> of the
  \<open>switch\<close> calls \<open>assertUnreachable\<close>; no statement follows it.
\<close>

definition executeTrade ::
  "Capabilities \<Rightarrow> nat \<Rightarrow> TradeExecution \<Rightarrow> HookInputs \<Rightarrow> ExecuteTradeResult" where
  "executeTrade caps hopIndex te i =
     (if \<not> wallet i then Threw MissingWallet
      else case accountMetadata i of
        None \<Rightarrow> Threw MissingAccountMetadata
      | Some am \<Rightarrow>
       (case tradeQuote i of
          None \<Rightarrow> Threw MissingTradeQuote
        | Some tq \<Rightarrow>
         (case HookInputs.swapperName i of
            None \<Rightarrow> Threw MissingSwapperName
          | Some sw \<Rightarrow>
             if \<not> truthy (sellAssetAccountId i) then Threw MissingSellAssetAccountId
             else
               Promised (startExecution hopIndex te)
                 (case
                    (let accountType' = accountType am;
                         accountNumber' = bip44AccountNumber am
                     in if \<not> hopIndex < length (steps tq) then Inl MissingStep
                        else
                         (let step = steps tq ! hopIndex;
                              stepSellAssetChainId = Asset.chainId (TradeQuoteStep.sellAsset step);
                              stepSellAssetAssetId = assetId (TradeQuoteStep.sellAsset step);
                              stepBuyAssetAssetId = assetId (TradeQuoteStep.buyAsset step)
                          in if sw = CowSwap
                             then
                               await (assertGetEvmChainAdapter caps stepSellAssetChainId) (\<lambda>adapter.
                               await (getAddress adapter accountNumber' None) (\<lambda>from.
                               Inr (Some (execEvmMessage from))))
                             else
                              (let stepSellAssetChainNamespace =
                                     fromChainId caps stepSellAssetChainId;
                                   receiverAddress = hopReceiverAddress caps tq stepBuyAssetAssetId
                               in case stepSellAssetChainNamespace of
                                    Evm \<Rightarrow>
                                      await (assertGetEvmChainAdapter caps stepSellAssetChainId)
                                        (\<lambda>adapter.
                                      await (getAddress adapter accountNumber' None) (\<lambda>from.
                                      await (ethSupportsEIP1559 caps) (\<lambda>supportsEIP1559'.
                                      Inr (Some (execEvmTransaction from supportsEIP1559'
                                                   receiverAddress)))))
                                  | Utxo \<Rightarrow>
                                     (case accountType' of
                                        None \<Rightarrow> Inl MissingUtxoAccountType
                                      | Some utxoAccountType \<Rightarrow>
                                          await (assertGetUtxoChainAdapter caps stepSellAssetChainId)
                                            (\<lambda>adapter.
                                          await (getPublicKey adapter accountNumber' utxoAccountType)
                                            (\<lambda>xpub.
                                          await (getAddress adapter accountNumber'
                                                   (Some utxoAccountType)) (\<lambda>senderAddress'.
                                          Inr (Some (execUtxoTransaction xpub utxoAccountType
                                                       (hopSenderAddress caps stepSellAssetAssetId
                                                          senderAddress')
                                                       receiverAddress))))))
                                  | CosmosSdk \<Rightarrow>
                                      await (assertGetCosmosSdkChainAdapter caps stepSellAssetChainId)
                                        (\<lambda>adapter.
                                      await (getAddress adapter accountNumber' None) (\<lambda>from.
                                      Inr (Some (execCosmosSdkTransaction from
                                                   (TradeQuote.receiveAddress tq)))))
                                  | OtherNamespace n \<Rightarrow>
                                      await (assertUnreachable caps n) (\<lambda>_. Inr None))))
                  of Inl thrown \<Rightarrow> ExecutorThrew thrown
                   | Inr None \<Rightarrow> Returned
                   | Inr (Some strategy) \<Rightarrow> Started strategy))))"

section \<open>Example states\<close>

definition exampleStep :: "SwapperName \<Rightarrow> BigNumber option \<Rightarrow> TradeQuoteStep" where
  "exampleStep sw fee =
     \<lparr> estimatedExecutionTimeMs = 60000,
       allowanceContract = ''0xallowance'',
       TradeQuoteStep.rate = ''2'',
       TradeQuoteStep.buyAsset = exampleAsset ''usdc'' ''eip155:1'' 6,
       TradeQuoteStep.sellAsset = exampleAsset ''eth'' ''eip155:1'' 6,
       TradeQuoteStep.accountNumber = 0,
       buyAmountBeforeFeesCryptoBaseUnit = 200,
       buyAmountAfterFeesCryptoBaseUnit = 190,
       TradeQuoteStep.sellAmountIncludingProtocolFeesCryptoBaseUnit = 100,
       feeData = \<lparr> protocolFees = fmempty, networkFeeCryptoBaseUnit = fee \<rparr>,
       source = sw \<rparr>"

definition exampleQuote :: "SwapperName \<Rightarrow> string \<Rightarrow> TradeQuote" where
  "exampleQuote sw i =
     \<lparr> TradeQuote.id = i,
       TradeQuote.receiveAddress = ''0xreceiver'',
       affiliateBps = ''0'',
       potentialAffiliateBps = ''0'',
       TradeQuote.rate = ''2'',
       slippageTolerancePercentageDecimal = ''0.005'',
       steps = [exampleStep sw (Some 2000000)],
       direction = None \<rparr>"

definition exampleApiQuote :: "SwapperName \<Rightarrow> string \<Rightarrow> TradeQuote option \<Rightarrow> ApiQuote" where
  "exampleApiQuote sw i q =
     \<lparr> ApiQuote.id = i, quote = q, ApiQuote.swapperName = sw,
       errors = (case q of
                   None \<Rightarrow> [\<lparr> error = OtherTradeQuoteError ''UnsupportedTradePair'', meta = None \<rparr>]
                 | Some _ \<Rightarrow> []),
       warnings = [] \<rparr>"

definition exampleMeta :: "SwapperName \<Rightarrow> string \<Rightarrow> ActiveQuoteMeta" where
  "exampleMeta sw i = \<lparr> ActiveQuoteMeta.swapperName = sw, identifier = i \<rparr>"

text \<open>
  Two example functions of the signature of \<open>getActiveQuoteMetaOrDefault\<close>, which
  is given the pin and the sorted quotes. Both fall back to the best quote when there
  is no pin. The first keeps a pin whatever the sorted quotes are; the second keeps
  it only when one of the sorted quotes carries its swapper and identifier.
\<close>

definition pinOrTop ::
  "ActiveQuoteMeta option \<Rightarrow> ApiQuote list \<Rightarrow> ActiveQuoteMeta option" where
  "pinOrTop activeQuoteMeta' sortedQuotes =
     (case activeQuoteMeta' of
        Some pinned \<Rightarrow> Some pinned
      | None \<Rightarrow> (case sortedQuotes of [] \<Rightarrow> None | bestQuote # _ \<Rightarrow> Some (metaOf bestQuote)))"

definition rankedPinOrTop ::
  "ActiveQuoteMeta option \<Rightarrow> ApiQuote list \<Rightarrow> ActiveQuoteMeta option" where
  "rankedPinOrTop activeQuoteMeta' sortedQuotes =
     (let defaultQuoteMeta =
            (case sortedQuotes of [] \<Rightarrow> None | bestQuote # _ \<Rightarrow> Some (metaOf bestQuote))
      in case activeQuoteMeta' of
           None \<Rightarrow> defaultQuoteMeta
         | Some pinned \<Rightarrow>
             if pinned \<in> set (map metaOf sortedQuotes) then Some pinned
             else defaultQuoteMeta)"

text \<open>
  An example ranking: the responses with a route among those stored for CowSwap under
  \<open>cow-1\<close> and for the Arbitrum bridge under \<open>arb-1\<close>, in this order.
\<close>

definition exampleSortTradeQuotes :: "TradeQuotes \<Rightarrow> ApiQuote list" where
  "exampleSortTradeQuotes tq =
     filter (\<lambda>e. quote e \<noteq> None)
       (concat (map (\<lambda>m. case lookupApiQuote tq m of None \<Rightarrow> [] | Some e \<Rightarrow> [e])
                  [exampleMeta CowSwap ''cow-1'', exampleMeta ArbitrumBridge ''arb-1'']))"

definition exampleHelpers :: Helpers where
  "exampleHelpers =
     \<lparr> swapperNames = [CowSwap, ArbitrumBridge],
       getEnabledSwappers = (\<lambda>_ _ _. True),
       validateQuoteRequest =
         (\<lambda>_ _ _ _ _ _ _. [\<lparr> error = OtherRequestError ''InsufficientSellAssetBalance'',
                              meta = None \<rparr>]),
       sortTradeQuotes = exampleSortTradeQuotes,
       getActiveQuoteMetaOrDefault = rankedPinOrTop,
       fromBaseUnit = specFromBaseUnit,
       getHopTotalNetworkFeeUserCurrencyPrecision =
         specGetHopTotalNetworkFeeUserCurrencyPrecision \<rparr>"

definition pinOrTopHelpers :: Helpers where
  "pinOrTopHelpers = exampleHelpers\<lparr>getActiveQuoteMetaOrDefault := pinOrTop\<rparr>"

definition idleHop :: HopExecutionMetadata where
  "idleHop = \<lparr> state = Idle, sellTxHash = None, buyTxHash = None,
               HopExecutionMetadata.message = None \<rparr>"

definition idleTradeExecution :: TradeExecution where
  "idleTradeExecution = \<lparr> firstHop = idleHop, secondHop = idleHop \<rparr>"

definition exampleState ::
  "TradeQuotes \<Rightarrow> ActiveQuoteMeta option \<Rightarrow> TradeQuote option \<Rightarrow> BigNumber option \<Rightarrow> ReduxState" where
  "exampleState tq pin confirmed amount =
     \<lparr> tradeQuoteSlice =
         \<lparr> activeQuoteMeta = pin, tradeQuotes = tq, confirmedQuote = confirmed,
           activeStep = None, tradeExecution = idleTradeExecution \<rparr>,
       selectFeatureFlags = fmempty,
       selectInputSellAmountCryptoBaseUnit = amount,
       selectIsWalletConnected = True,
       selectWalletConnectedChainIds = [''eip155:1''],
       selectManualReceiveAddress = None,
       selectSellAssetBalanceCryptoBaseUnit = 0,
       selectInputSellAsset = exampleAsset ''eth'' ''eip155:1'' 6,
       selectInputBuyAsset = exampleAsset ''usdc'' ''eip155:1'' 6,
       selectFeeAssetById =
         (\<lambda>a. if a = ''eth'' then Some (exampleAsset ''eth'' ''eip155:1'' 6) else None),
       selectMarketDataUserCurrency = fmupd ''eth'' \<lparr> price = 3 \<rparr> fmempty \<rparr>"

text \<open>
  Aggregate states: both providers answered with a route; CowSwap alone answered with
  a route; CowSwap and the bridge answered, CowSwap with an error and no route, the
  bridge with nothing.
\<close>

definition bothQuoted :: TradeQuotes where
  "bothQuoted =
     fmupd CowSwap
       (fmupd ''cow-1'' (exampleApiQuote CowSwap ''cow-1'' (Some (exampleQuote CowSwap ''cow-1''))) fmempty)
       (fmupd ArbitrumBridge
          (fmupd ''arb-1''
             (exampleApiQuote ArbitrumBridge ''arb-1'' (Some (exampleQuote ArbitrumBridge ''arb-1''))) fmempty)
          fmempty)"

definition cowQuoted :: TradeQuotes where
  "cowQuoted =
     fmupd CowSwap
       (fmupd ''cow-1'' (exampleApiQuote CowSwap ''cow-1'' (Some (exampleQuote CowSwap ''cow-1''))) fmempty)
       fmempty"

definition noneUsable :: TradeQuotes where
  "noneUsable =
     fmupd CowSwap (fmupd ''cow-1'' (exampleApiQuote CowSwap ''cow-1'' None) fmempty)
       (fmupd ArbitrumBridge fmempty fmempty)"

text \<open>
  CowSwap answered with a route and the bridge with an error and no route: the state
  \<open>cowQuoted\<close> with one errored response more.
\<close>

definition cowQuotedBridgeErrored :: TradeQuotes where
  "cowQuotedBridgeErrored =
     fmupd ArbitrumBridge
       (fmupd ''arb-1'' (exampleApiQuote ArbitrumBridge ''arb-1'' None) fmempty)
       cowQuoted"

text \<open>
  CowSwap and a swapper outside the enabled list answered with nothing; the bridge,
  which is enabled, has not answered.
\<close>

definition foreignResponse :: TradeQuotes where
  "foreignResponse = fmupd CowSwap fmempty (fmupd (OtherSwapper ''Test'') fmempty fmempty)"

definition allEmpty :: TradeQuotes where
  "allEmpty = fmupd CowSwap fmempty (fmupd ArbitrumBridge fmempty fmempty)"

text \<open>
  Example capabilities: every adapter exists and answers, the wallet supports
  EIP-1559, the chain namespace is the part of the chain id before the colon, and
  \<open>assertUnreachable\<close> throws.
\<close>

definition exampleAdapter :: "string \<Rightarrow> ChainAdapter" where
  "exampleAdapter address = \<lparr> getAddress = (\<lambda>_ _. Inr address), getPublicKey = (\<lambda>_ _. Inr ''xpub-1'') \<rparr>"

definition exampleFromChainId :: "ChainId \<Rightarrow> ChainNamespace" where
  "exampleFromChainId c =
     (let namespace = takeWhile (\<lambda>x. x \<noteq> CHR '':'') c
      in if namespace = ''eip155'' then Evm
         else if namespace = ''bip122'' then Utxo
         else if namespace = ''cosmos'' then CosmosSdk
         else OtherNamespace namespace)"

definition exampleCapabilities :: Capabilities where
  "exampleCapabilities =
     \<lparr> fromChainId = exampleFromChainId,
       assertGetEvmChainAdapter = (\<lambda>_. Inr (exampleAdapter ''0xsender'')),
       assertGetUtxoChainAdapter = (\<lambda>_. Inr (exampleAdapter ''bc1sender'')),
       assertGetCosmosSdkChainAdapter = (\<lambda>_. Inr (exampleAdapter ''cosmos1sender'')),
       ethSupportsEIP1559 = Inr True,
       bchAssetId = ''bip122:bch/slip44:145'',
       assertUnreachable = (\<lambda>x. Inl (''unhandled case: '' @ x)) \<rparr>"

text \<open>
  The inputs of the hook for a quote of one hop whose sell asset lives on the given
  chain, with the given swapper and account type.
\<close>

definition exampleHookInputs :: "SwapperName \<Rightarrow> ChainId \<Rightarrow> string option \<Rightarrow> HookInputs" where
  "exampleHookInputs sw c accountType' =
     \<lparr> wallet = True,
       accountMetadata = Some \<lparr> accountType = accountType', bip44AccountNumber = 0 \<rparr>,
       tradeQuote =
         Some ((exampleQuote sw ''q-1'')
                 \<lparr>steps := [(exampleStep sw (Some 2000000))
                              \<lparr>TradeQuoteStep.sellAsset := exampleAsset ''sell'' c 8\<rparr>]\<rparr>),
       HookInputs.swapperName = Some sw,
       sellAssetAccountId = Some ''account-1'' \<rparr>"

section \<open>Unfolding rules for the examples\<close>

lemmas example_defs =
  exampleHelpers_def exampleState_def exampleApiQuote_def exampleQuote_def exampleStep_def
  exampleAsset_def exampleMeta_def exampleSortTradeQuotes_def
  bothQuoted_def cowQuoted_def noneUsable_def allEmpty_def
  idleTradeExecution_def idleHop_def

lemmas selector_defs =
  selectTradeQuoteSlice_def selectActiveQuoteMeta_def selectTradeQuotes_def
  selectEnabledSwappersIgnoringCrossAccountTrade_def selectSortedTradeQuotes_def
  selectConfirmedQuote_def selectActiveQuoteMetaOrDefault_def lookupApiQuote_def
  selectActiveSwapperName_def selectActiveSwapperApiResponse_def selectActiveQuote_def

lemmas hop_defs =
  selectFirstHop_def selectSecondHop_def selectLastHop_def getHopByIndex_def
  selectFirstHopSellAsset_def selectSecondHopSellAsset_def selectLastHopSellAsset_def
  selectFirstHopSellFeeAsset_def selectSecondHopSellFeeAsset_def selectLastHopSellFeeAsset_def
  selectNetworkFeeRequiresBalance_def
  selectFirstHopNetworkFeeCryptoBaseUnit_def selectSecondHopNetworkFeeCryptoBaseUnit_def
  selectLastHopNetworkFeeCryptoBaseUnit_def

lemmas fee_defs =
  selectFirstHopNetworkFeeCryptoPrecision_def selectSecondHopNetworkFeeCryptoPrecision_def
  selectLastHopNetworkFeeCryptoPrecision_def
  selectFirstHopNetworkFeeUserCurrencyPrecision_def
  selectSecondHopNetworkFeeUserCurrencyPrecision_def
  selectTotalNetworkFeeUserCurrencyPrecision_def hopNetworkFeeUserCurrencyPrecision_def

lemmas handler_defs =
  onFail_def onSellTxHash_def onStatus_def onSuccess_def dispatch_def showErrorToast_def
  resolve_def tradeExecutionReducer_def updateHop_def hopOf_def

section \<open>Properties of the Arbitrum bridge quote\<close>

text \<open>The quote is returned whenever the trade is valid and the fee data can be fetched.\<close>

lemma getTradeQuote_succeeds:
  assumes "assertValidTrade deps (GetEvmTradeQuoteInput.buyAsset input)
             (GetEvmTradeQuoteInput.sellAsset input) = Inr ok"
    and "fetchArbitrumBridgeSwap deps (supportsEIP1559 input)
           (GetEvmTradeQuoteInput.chainId input) (GetEvmTradeQuoteInput.buyAsset input)
           (GetEvmTradeQuoteInput.sellAmountIncludingProtocolFeesCryptoBaseUnit input)
           (GetEvmTradeQuoteInput.sellAsset input)
           (case sendAddress input of None \<Rightarrow> '''' | Some a \<Rightarrow> a)
           (GetEvmTradeQuoteInput.receiveAddress input) = Inr swap"
  shows "\<exists>q. getTradeQuote input deps = Inr q"
  using assms by (simp add: getTradeQuote_def Let_def)

text \<open>
  C7. Every successful Arbitrum bridge quote is a single-hop route of rate \<open>''1''\<close>
  whose hop has rate \<open>''1''\<close> as well and whose buy amounts, before and after fees,
  both equal the sell amount \<open>S\<close> of the request.
\<close>

theorem C7_arbitrum_quote_fixed_rate:
  assumes "getTradeQuote input deps = Inr q"
    and "GetEvmTradeQuoteInput.sellAmountIncludingProtocolFeesCryptoBaseUnit input = S"
  shows "TradeQuote.rate q = ''1''
       \<and> (\<exists>hop. steps q = [hop]
            \<and> TradeQuoteStep.rate hop = ''1''
            \<and> buyAmountBeforeFeesCryptoBaseUnit hop = S
            \<and> buyAmountAfterFeesCryptoBaseUnit hop = S
            \<and> TradeQuoteStep.sellAmountIncludingProtocolFeesCryptoBaseUnit hop = S)"
  using assms
  by (auto simp: getTradeQuote_def Let_def split: sum.splits)

text \<open>The scenario of the spec: a sell amount of 100 base units.\<close>

theorem C7_arbitrum_quote_fixed_rate_witness:
  "\<exists>q hop. getTradeQuote exampleInput exampleDeps = Inr q
     \<and> TradeQuote.rate q = ''1'' \<and> steps q = [hop]
     \<and> buyAmountBeforeFeesCryptoBaseUnit hop = 100
     \<and> buyAmountAfterFeesCryptoBaseUnit hop = 100"
proof -
  obtain q where q: "getTradeQuote exampleInput exampleDeps = Inr q"
    by (simp add: getTradeQuote_def exampleInput_def exampleDeps_def Let_def)
  have S: "GetEvmTradeQuoteInput.sellAmountIncludingProtocolFeesCryptoBaseUnit exampleInput = 100"
    by (simp add: exampleInput_def)
  from C7_arbitrum_quote_fixed_rate [OF q S] q show ?thesis
    by blast
qed

section \<open>The confirmed quote\<close>

text \<open>
  C1. In every state whose confirmed quote is set, \<open>selectActiveQuote\<close> returns exactly
  that quote, and goes on returning it whatever the trade quotes and the active quote
  meta are replaced with; the helpers the selectors call play no part.
\<close>

theorem C1_confirmed_quote_is_active_quote:
  assumes "selectConfirmedQuote s = Some q"
  shows "selectActiveQuote H s = Some q
       \<and> selectActiveQuote H
           (s\<lparr>tradeQuoteSlice :=
                (tradeQuoteSlice s)\<lparr>tradeQuotes := tq', activeQuoteMeta := pin'\<rparr>\<rparr>) = Some q"
  using assms
  by (simp add: selectActiveQuote_def selectConfirmedQuote_def selectTradeQuoteSlice_def Let_def)

theorem C1_confirmed_quote_is_active_quote_witness:
  "selectConfirmedQuote
     (exampleState bothQuoted (Some (exampleMeta ArbitrumBridge ''arb-1''))
        (Some (exampleQuote CowSwap ''cow-1'')) (Some 100)) = Some (exampleQuote CowSwap ''cow-1'')
   \<and> selectActiveQuote exampleHelpers
       (exampleState bothQuoted (Some (exampleMeta ArbitrumBridge ''arb-1''))
          (Some (exampleQuote CowSwap ''cow-1'')) (Some 100)) = Some (exampleQuote CowSwap ''cow-1'')
   \<and> selectActiveQuote exampleHelpers
       ((exampleState bothQuoted (Some (exampleMeta ArbitrumBridge ''arb-1''))
          (Some (exampleQuote CowSwap ''cow-1'')) (Some 100))
         \<lparr>tradeQuoteSlice :=
            (tradeQuoteSlice (exampleState bothQuoted (Some (exampleMeta ArbitrumBridge ''arb-1''))
               (Some (exampleQuote CowSwap ''cow-1'')) (Some 100)))
              \<lparr>tradeQuotes := allEmpty, activeQuoteMeta := None\<rparr>\<rparr>) = Some (exampleQuote CowSwap ''cow-1'')"
proof -
  let ?s = "exampleState bothQuoted (Some (exampleMeta ArbitrumBridge ''arb-1''))
              (Some (exampleQuote CowSwap ''cow-1'')) (Some 100)"
  have c: "selectConfirmedQuote ?s = Some (exampleQuote CowSwap ''cow-1'')"
    by (simp add: selectConfirmedQuote_def selectTradeQuoteSlice_def exampleState_def)
  from C1_confirmed_quote_is_active_quote
         [OF c, where H = exampleHelpers and tq' = allEmpty and pin' = None] c
  show ?thesis by simp
qed

section \<open>The top-level errors\<close>

text \<open>
  C9. In every state whose entered sell amount is absent or zero, the request-error
  selector and the response-error selector both return the empty list.
\<close>

theorem C9_no_errors_without_entered_amount:
  assumes "selectInputSellAmountCryptoBaseUnit s = None
         \<or> selectInputSellAmountCryptoBaseUnit s = Some 0"
  shows "selectTradeQuoteRequestErrors H s = [] \<and> selectTradeQuoteResponseErrors H s = []"
  using assms
  by (auto simp: selectTradeQuoteRequestErrors_def selectTradeQuoteResponseErrors_def
        bnOrZero_def Let_def)

text \<open>An amount that is not positive is gated in the same way.\<close>

lemma no_errors_without_positive_amount:
  assumes "bnOrZero (selectInputSellAmountCryptoBaseUnit s) \<le> 0"
  shows "selectTradeQuoteRequestErrors H s = [] \<and> selectTradeQuoteResponseErrors H s = []"
  using assms
  by (simp add: selectTradeQuoteRequestErrors_def selectTradeQuoteResponseErrors_def
        Let_def not_less)

lemma fmdom_fempty_iff: "fmdom m = {||} \<longleftrightarrow> m = fmempty"
proof
  assume "fmdom m = {||}"
  then have "\<And>x. fmlookup m x = None" by (metis fmdom_notD fempty_iff)
  then show "m = fmempty" by (intro fmap_ext) simp
qed simp

text \<open>The response-error selector in closed form.\<close>

lemma responseErrors_cases:
  "selectTradeQuoteResponseErrors H s =
     (if 0 < bnOrZero (selectInputSellAmountCryptoBaseUnit s)
         \<and> length (selectEnabledSwappersIgnoringCrossAccountTrade H s)
             \<le> fcard (fmdom (selectTradeQuotes s))
         \<and> fmpred (\<lambda>_ quotes. quotes = fmempty) (selectTradeQuotes s)
      then [\<lparr> error = NoQuotesAvailable, meta = None \<rparr>] else [])"
  by (auto simp: selectTradeQuoteResponseErrors_def Let_def fmdom_fempty_iff)

text \<open>
  In the state of the example every check but the amount passes: with an amount of 100
  both selectors report an error, with none or zero they report nothing.
\<close>

theorem C9_no_errors_without_entered_amount_witness:
  "selectTradeQuoteRequestErrors exampleHelpers (exampleState allEmpty None None None) = []
   \<and> selectTradeQuoteResponseErrors exampleHelpers (exampleState allEmpty None None None) = []
   \<and> selectTradeQuoteRequestErrors exampleHelpers (exampleState allEmpty None None (Some 0)) = []
   \<and> selectTradeQuoteResponseErrors exampleHelpers (exampleState allEmpty None None (Some 0)) = []
   \<and> selectTradeQuoteRequestErrors exampleHelpers (exampleState allEmpty None None (Some 100)) \<noteq> []
   \<and> selectTradeQuoteResponseErrors exampleHelpers (exampleState allEmpty None None (Some 100)) \<noteq> []"
proof -
  have a: "selectInputSellAmountCryptoBaseUnit (exampleState allEmpty None None None) = None
         \<or> selectInputSellAmountCryptoBaseUnit (exampleState allEmpty None None None) = Some 0"
    by (simp add: exampleState_def)
  have b: "selectInputSellAmountCryptoBaseUnit (exampleState allEmpty None None (Some 0)) = None
         \<or> selectInputSellAmountCryptoBaseUnit (exampleState allEmpty None None (Some 0)) = Some 0"
    by (simp add: exampleState_def)
  have c: "selectTradeQuoteRequestErrors exampleHelpers
             (exampleState allEmpty None None (Some 100)) \<noteq> []"
    by (simp add: selectTradeQuoteRequestErrors_def bnOrZero_def example_defs)
  have d: "selectTradeQuoteResponseErrors exampleHelpers
             (exampleState allEmpty None None (Some 100)) \<noteq> []"
    by (simp add: responseErrors_cases bnOrZero_def selector_defs example_defs fmpred_iff
          fcard_finsert_if)
  from C9_no_errors_without_entered_amount [OF a, of exampleHelpers]
       C9_no_errors_without_entered_amount [OF b, of exampleHelpers] c d
  show ?thesis by simp
qed

subsection \<open>When \<open>NoQuotesAvailable\<close> is produced\<close>

lemma fold_record_lookup:
  "fmlookup (fold (\<lambda>n acc. fmupd n (P n) acc) xs acc0) k =
     (if k \<in> set xs then Some (P k) else fmlookup acc0 k)"
  by (induction xs arbitrary: acc0) auto

lemma selectIsSwapperResponseAvailable_lookup:
  "fmlookup (selectIsSwapperResponseAvailable H s) n =
     (if n \<in> set (selectEnabledSwappersIgnoringCrossAccountTrade H s)
      then Some (fmlookup (selectTradeQuotes s) n \<noteq> None) else None)"
  by (simp add: selectIsSwapperResponseAvailable_def Let_def fold_record_lookup)

lemma selectIsSwapperQuoteAvailable_lookup:
  "fmlookup (selectIsSwapperQuoteAvailable H s) n =
     (if n \<in> set (selectEnabledSwappersIgnoringCrossAccountTrade H s)
      then Some (case fmlookup (selectTradeQuotes s) n of
                   None \<Rightarrow> False
                 | Some r \<Rightarrow> \<not> fmpred (\<lambda>_ swapperQuote. quote swapperQuote = None) r)
      else None)"
  by (simp add: selectIsSwapperQuoteAvailable_def Let_def fold_record_lookup)

lemma enabled_distinct:
  "distinct (swapperNames H) \<Longrightarrow> distinct (selectEnabledSwappersIgnoringCrossAccountTrade H s)"
  by (simp add: selectEnabledSwappersIgnoringCrossAccountTrade_def Let_def)

text \<open>
  The selector compares the number of responses with the number of enabled swappers.
  When the responses all belong to enabled swappers, the comparison decides whether
  every enabled swapper has one.
\<close>

lemma count_check_iff:
  assumes "distinct xs" and "fmdom' tq \<subseteq> set xs"
  shows "\<not> fcard (fmdom tq) < length xs \<longleftrightarrow> (\<forall>n\<in>set xs. fmlookup tq n \<noteq> None)"
proof -
  have c1: "fcard (fmdom tq) = card (fmdom' tq)"
    by (simp add: fcard.rep_eq fmdom'_alt_def)
  have c2: "length xs = card (set xs)"
    using assms(1) by (simp add: distinct_card)
  show ?thesis
  proof
    assume "\<not> fcard (fmdom tq) < length xs"
    then have "card (set xs) \<le> card (fmdom' tq)" using c1 c2 by simp
    with assms(2) have "fmdom' tq = set xs"
      by (intro card_seteq) auto
    then show "\<forall>n\<in>set xs. fmlookup tq n \<noteq> None"
      by (auto simp: fmlookup_dom'_iff[symmetric])
  next
    assume "\<forall>n\<in>set xs. fmlookup tq n \<noteq> None"
    then have "set xs \<subseteq> fmdom' tq" by (auto simp: fmlookup_dom'_iff)
    with assms(2) have "fmdom' tq = set xs" by auto
    then show "\<not> fcard (fmdom tq) < length xs" using c1 c2 by simp
  qed
qed

lemma everyEnabledSwapperHasResponse_iff:
  "everyEnabledSwapperHasResponse H s \<longleftrightarrow>
     (\<forall>n\<in>set (selectEnabledSwappersIgnoringCrossAccountTrade H s).
        fmlookup (selectTradeQuotes s) n \<noteq> None)"
  by (auto simp: everyEnabledSwapperHasResponse_def fmpred_iff
        selectIsSwapperResponseAvailable_lookup split: if_splits)

lemma noUsableRoute_iff:
  "noUsableRoute H s \<longleftrightarrow>
     (\<forall>n\<in>set (selectEnabledSwappersIgnoringCrossAccountTrade H s).
        \<forall>r. fmlookup (selectTradeQuotes s) n = Some r \<longrightarrow>
          fmpred (\<lambda>_ swapperQuote. quote swapperQuote = None) r)"
  by (auto simp: noUsableRoute_def fmpred_iff
        selectIsSwapperQuoteAvailable_lookup split: if_splits option.splits)

lemma noQuotesAvailableProduced_iff:
  "noQuotesAvailableProduced H s \<longleftrightarrow>
     0 < bnOrZero (selectInputSellAmountCryptoBaseUnit s)
     \<and> length (selectEnabledSwappersIgnoringCrossAccountTrade H s)
         \<le> fcard (fmdom (selectTradeQuotes s))
     \<and> fmpred (\<lambda>_ quotes. quotes = fmempty) (selectTradeQuotes s)"
  unfolding noQuotesAvailableProduced_def responseErrors_cases
  by (auto split: if_splits)

text \<open>
  C2 as stated fails: a sell amount is entered, both enabled swappers have a
  recorded response, none of the responses holds a route (CowSwap answered with an
  error, the bridge with nothing), and \<open>NoQuotesAvailable\<close> is not produced.
\<close>

theorem C2_error_response_counterexample:
  "everyEnabledSwapperHasResponse exampleHelpers (exampleState noneUsable None None (Some 100))
   \<and> noUsableRoute exampleHelpers (exampleState noneUsable None None (Some 100))
   \<and> \<not> noQuotesAvailableProduced exampleHelpers (exampleState noneUsable None None (Some 100))"
  by (auto simp: everyEnabledSwapperHasResponse_iff noUsableRoute_iff noQuotesAvailableProduced_iff
        selector_defs example_defs fmpred_iff)

text \<open>
  C2, amended. In every state whose recorded responses all belong to enabled swappers
  (the values of the \<open>SwapperName\<close> enumeration being distinct), \<open>NoQuotesAvailable\<close>
  is produced if and only if the entered sell amount is greater than zero, every
  enabled swapper has a recorded response, and every recorded response is empty. When
  it is produced no response holds a usable route, and it is never produced while an
  enabled swapper has no recorded response.
\<close>

theorem C2_no_quotes_available_iff:
  assumes "distinct (swapperNames H)"
    and "fmdom' (selectTradeQuotes s) \<subseteq> set (selectEnabledSwappersIgnoringCrossAccountTrade H s)"
  shows "(noQuotesAvailableProduced H s \<longleftrightarrow>
            0 < bnOrZero (selectInputSellAmountCryptoBaseUnit s)
            \<and> everyEnabledSwapperHasResponse H s
            \<and> fmpred (\<lambda>_ quotes. quotes = fmempty) (selectTradeQuotes s))
       \<and> (noQuotesAvailableProduced H s \<longrightarrow> noUsableRoute H s)
       \<and> (\<not> everyEnabledSwapperHasResponse H s \<longrightarrow> \<not> noQuotesAvailableProduced H s)"
proof -
  let ?en = "selectEnabledSwappersIgnoringCrossAccountTrade H s"
  let ?tq = "selectTradeQuotes s"
  have d: "distinct ?en" using assms(1) by (rule enabled_distinct)
  have cnt: "length ?en \<le> fcard (fmdom ?tq) \<longleftrightarrow> everyEnabledSwapperHasResponse H s"
    using count_check_iff [OF d assms(2)]
    by (simp add: everyEnabledSwapperHasResponse_iff not_less)
  have main: "noQuotesAvailableProduced H s \<longleftrightarrow>
            0 < bnOrZero (selectInputSellAmountCryptoBaseUnit s)
            \<and> everyEnabledSwapperHasResponse H s
            \<and> fmpred (\<lambda>_ quotes. quotes = fmempty) ?tq"
    by (simp add: noQuotesAvailableProduced_iff cnt)
  have usable: "noUsableRoute H s" if "fmpred (\<lambda>_ quotes. quotes = fmempty) ?tq"
    unfolding noUsableRoute_iff
  proof (intro ballI allI impI)
    fix n r assume "fmlookup ?tq n = Some r"
    with that have "r = fmempty" by (auto simp: fmpred_iff)
    then show "fmpred (\<lambda>_ swapperQuote. quote swapperQuote = None) r" by simp
  qed
  show ?thesis using main usable by blast
qed

theorem C2_no_quotes_available_iff_witness:
  "distinct (swapperNames exampleHelpers)
   \<and> fmdom' (selectTradeQuotes (exampleState allEmpty None None (Some 100)))
       \<subseteq> set (selectEnabledSwappersIgnoringCrossAccountTrade exampleHelpers
                 (exampleState allEmpty None None (Some 100)))
   \<and> noQuotesAvailableProduced exampleHelpers (exampleState allEmpty None None (Some 100))
   \<and> noUsableRoute exampleHelpers (exampleState allEmpty None None (Some 100))
   \<and> \<not> noQuotesAvailableProduced exampleHelpers (exampleState cowQuoted None None (Some 100))"
proof -
  let ?s = "exampleState allEmpty None None (Some 100)"
  let ?s' = "exampleState cowQuoted None None (Some 100)"
  have d: "distinct (swapperNames exampleHelpers)"
    by (simp add: example_defs)
  have sub: "fmdom' (selectTradeQuotes ?s)
       \<subseteq> set (selectEnabledSwappersIgnoringCrossAccountTrade exampleHelpers ?s)"
    by (simp add: selector_defs example_defs)
  have sub': "fmdom' (selectTradeQuotes ?s')
       \<subseteq> set (selectEnabledSwappersIgnoringCrossAccountTrade exampleHelpers ?s')"
    by (simp add: selector_defs example_defs)
  have resp: "everyEnabledSwapperHasResponse exampleHelpers ?s"
    by (simp add: everyEnabledSwapperHasResponse_iff selector_defs example_defs)
  have nresp: "\<not> everyEnabledSwapperHasResponse exampleHelpers ?s'"
    by (simp add: everyEnabledSwapperHasResponse_iff selector_defs example_defs)
  have amt: "0 < bnOrZero (selectInputSellAmountCryptoBaseUnit ?s)"
    by (simp add: bnOrZero_def example_defs)
  have emp: "fmpred (\<lambda>_ quotes. quotes = fmempty) (selectTradeQuotes ?s)"
    by (simp add: selector_defs example_defs fmpred_iff)
  from C2_no_quotes_available_iff [OF d sub] C2_no_quotes_available_iff [OF d sub']
       d sub resp nresp amt emp
  show ?thesis by blast
qed

text \<open>
  Outside such states the count stands in for the membership it is meant to check: a
  response recorded for a swapper that is not enabled makes up for the response an
  enabled swapper has not sent.
\<close>

lemma count_check_counts_foreign_responses:
  "\<not> everyEnabledSwapperHasResponse exampleHelpers
       (exampleState foreignResponse None None (Some 100))
   \<and> noQuotesAvailableProduced exampleHelpers (exampleState foreignResponse None None (Some 100))"
  by (auto simp: everyEnabledSwapperHasResponse_iff noQuotesAvailableProduced_iff
        selector_defs example_defs foreignResponse_def fmpred_iff bnOrZero_def fcard_finsert_if)

section \<open>The active quote before confirmation\<close>

text \<open>
  What the selectors do with the meta \<open>getActiveQuoteMetaOrDefault\<close> returns: they look
  it up in the trade quotes and return the route stored there.
\<close>

lemma activeQuote_unconfirmed:
  assumes "selectConfirmedQuote s = None"
  shows "selectActiveQuote H s =
     (case selectActiveQuoteMetaOrDefault H s of
        None \<Rightarrow> None
      | Some m \<Rightarrow> (case lookupApiQuote (selectTradeQuotes s) m of None \<Rightarrow> None | Some r \<Rightarrow> quote r))"
  using assms
  by (simp add: selectActiveQuote_def selectActiveSwapperApiResponse_def Let_def
        split: option.splits)

lemma example_state_selectors:
  "selectConfirmedQuote (exampleState tq pin None amt) = None"
  "selectTradeQuotes (exampleState tq pin c amt) = tq"
  "selectActiveQuoteMeta (exampleState tq pin c amt) = pin"
  by (simp_all add: selectConfirmedQuote_def selectTradeQuotes_def selectActiveQuoteMeta_def
        selectTradeQuoteSlice_def exampleState_def)

lemma lookup_cowQuoted:
  "lookupApiQuote cowQuoted m =
     (if m = exampleMeta CowSwap ''cow-1''
      then Some (exampleApiQuote CowSwap ''cow-1'' (Some (exampleQuote CowSwap ''cow-1'')))
      else None)"
  by (cases m) (auto simp: lookupApiQuote_def cowQuoted_def exampleMeta_def)

lemma lookup_cowQuotedBridgeErrored:
  "lookupApiQuote cowQuotedBridgeErrored m =
     (if m = exampleMeta CowSwap ''cow-1''
      then Some (exampleApiQuote CowSwap ''cow-1'' (Some (exampleQuote CowSwap ''cow-1'')))
      else if m = exampleMeta ArbitrumBridge ''arb-1''
      then Some (exampleApiQuote ArbitrumBridge ''arb-1'' None)
      else None)"
  by (cases m) (auto simp: lookupApiQuote_def cowQuotedBridgeErrored_def cowQuoted_def exampleMeta_def)



lemma example_sorted:
  "selectSortedTradeQuotes exampleHelpers (exampleState tq pin c amt) = exampleSortTradeQuotes tq"
  "selectSortedTradeQuotes pinOrTopHelpers (exampleState tq pin c amt) = exampleSortTradeQuotes tq"
  by (simp_all add: selectSortedTradeQuotes_def example_state_selectors exampleHelpers_def
        pinOrTopHelpers_def)

lemma example_ranking:
  "exampleSortTradeQuotes cowQuoted
     = [exampleApiQuote CowSwap ''cow-1'' (Some (exampleQuote CowSwap ''cow-1''))]"
  "exampleSortTradeQuotes cowQuotedBridgeErrored
     = [exampleApiQuote CowSwap ''cow-1'' (Some (exampleQuote CowSwap ''cow-1''))]"
  by (simp_all add: exampleSortTradeQuotes_def lookup_cowQuoted lookup_cowQuotedBridgeErrored
        exampleMeta_def exampleApiQuote_def)

lemma example_helper:
  "getActiveQuoteMetaOrDefault pinOrTopHelpers = pinOrTop"
  "getActiveQuoteMetaOrDefault exampleHelpers = rankedPinOrTop"
  by (simp_all add: pinOrTopHelpers_def exampleHelpers_def)

lemma example_selected:
  "selectActiveQuoteMetaOrDefault pinOrTopHelpers (exampleState tq (Some m) c amt) = Some m"
  "selectActiveQuoteMetaOrDefault pinOrTopHelpers (exampleState cowQuoted None c amt)
     = Some (exampleMeta CowSwap ''cow-1'')"
  "selectActiveQuoteMetaOrDefault exampleHelpers
       (exampleState cowQuoted (Some (exampleMeta ArbitrumBridge ''arb-1'')) c amt)
     = Some (exampleMeta CowSwap ''cow-1'')"
  by (simp_all add: selectActiveQuoteMetaOrDefault_def example_sorted example_ranking
        example_state_selectors example_helper pinOrTop_def rankedPinOrTop_def metaOf_def
        exampleMeta_def exampleApiQuote_def)


section \<open>The network fee metrics\<close>

lemma lookup_bothQuoted_arb:
  "lookupApiQuote bothQuoted (exampleMeta ArbitrumBridge ''arb-1'')
     = Some (exampleApiQuote ArbitrumBridge ''arb-1'' (Some (exampleQuote ArbitrumBridge ''arb-1'')))"
  by (simp add: lookupApiQuote_def bothQuoted_def exampleMeta_def)

lemma cow_selected:
  "selectActiveQuoteMetaOrDefault exampleHelpers (exampleState cowQuoted None None (Some 100))
     = Some (exampleMeta CowSwap ''cow-1'')"
  by (simp add: selectActiveQuoteMetaOrDefault_def example_sorted example_ranking
        example_state_selectors example_helper rankedPinOrTop_def metaOf_def exampleMeta_def
        exampleApiQuote_def)

lemma arb_selected:
  "selectActiveQuoteMetaOrDefault pinOrTopHelpers
       (exampleState bothQuoted (Some (exampleMeta ArbitrumBridge ''arb-1'')) None (Some 100))
     = Some (exampleMeta ArbitrumBridge ''arb-1'')"
  by (rule example_selected(1))

lemma cow_swapper:
  "selectActiveSwapperName exampleHelpers (exampleState cowQuoted None None (Some 100))
     = Some CowSwap"
  by (simp add: selectActiveSwapperName_def cow_selected example_state_selectors lookup_cowQuoted
        exampleMeta_def)

lemma cow_quote:
  "selectActiveQuote exampleHelpers (exampleState cowQuoted None None (Some 100))
     = Some (exampleQuote CowSwap ''cow-1'')"
  by (simp add: activeQuote_unconfirmed example_state_selectors cow_selected lookup_cowQuoted
        exampleApiQuote_def)

lemma arb_quote:
  "selectActiveQuote pinOrTopHelpers
       (exampleState bothQuoted (Some (exampleMeta ArbitrumBridge ''arb-1'')) None (Some 100))
     = Some (exampleQuote ArbitrumBridge ''arb-1'')"
  by (simp add: activeQuote_unconfirmed example_state_selectors arb_selected lookup_bothQuoted_arb
        exampleApiQuote_def)

text \<open>
  C10 as stated fails: the active swapper is CowSwap, the hop's network fee is
  2000000 base units of a fee asset of precision 6 and price 3, and the first hop's
  network fee in user currency and the total are 6, not 0.
\<close>

theorem C10_cowswap_user_currency_fee_counterexample:
  "selectActiveSwapperName exampleHelpers (exampleState cowQuoted None None (Some 100))
     = Some CowSwap
   \<and> selectFirstHopNetworkFeeUserCurrencyPrecision exampleHelpers
       (exampleState cowQuoted None None (Some 100)) = Inr (Some 6)
   \<and> selectTotalNetworkFeeUserCurrencyPrecision exampleHelpers
       (exampleState cowQuoted None None (Some 100)) = Inr 6"
proof -
  have f: "selectFirstHopNetworkFeeUserCurrencyPrecision exampleHelpers
       (exampleState cowQuoted None None (Some 100)) = Inr (Some 6)"
    by (simp add: fee_defs hop_defs cow_quote)
       (simp add: example_defs specGetHopTotalNetworkFeeUserCurrencyPrecision_def
          specFromBaseUnit_def)
  have g: "selectSecondHopNetworkFeeUserCurrencyPrecision exampleHelpers
       (exampleState cowQuoted None None (Some 100)) = Inr None"
    by (simp add: fee_defs hop_defs cow_quote) (simp add: example_defs)
  show ?thesis
    using cow_swapper f g
    by (simp add: selectTotalNetworkFeeUserCurrencyPrecision_def bnOrZero_def)
qed

text \<open>The three fees in the fee asset's precision under either value of the guard.\<close>

lemma cryptoPrecision_not_required:
  assumes "\<not> selectNetworkFeeRequiresBalance H s"
  shows "selectFirstHopNetworkFeeCryptoPrecision H s = 0
       \<and> selectSecondHopNetworkFeeCryptoPrecision H s = 0
       \<and> selectLastHopNetworkFeeCryptoPrecision H s = 0"
  using assms
  by (simp add: selectFirstHopNetworkFeeCryptoPrecision_def
        selectSecondHopNetworkFeeCryptoPrecision_def selectLastHopNetworkFeeCryptoPrecision_def
        Let_def split: option.splits)

lemma cryptoPrecision_required:
  assumes "selectNetworkFeeRequiresBalance H s"
  shows "(\<forall>a. selectFirstHopSellFeeAsset H s = Some a \<longrightarrow>
            selectFirstHopNetworkFeeCryptoPrecision H s =
              fromBaseUnit H (bnOrZero (selectFirstHopNetworkFeeCryptoBaseUnit H s)) (precision a))
       \<and> (\<forall>a. selectSecondHopSellFeeAsset H s = Some a \<longrightarrow>
            selectSecondHopNetworkFeeCryptoPrecision H s =
              fromBaseUnit H (bnOrZero (selectSecondHopNetworkFeeCryptoBaseUnit H s)) (precision a))
       \<and> (\<forall>a. selectLastHopSellFeeAsset H s = Some a \<longrightarrow>
            selectLastHopNetworkFeeCryptoPrecision H s =
              fromBaseUnit H (bnOrZero (selectLastHopNetworkFeeCryptoBaseUnit H s)) (precision a))"
  using assms
  by (simp add: selectFirstHopNetworkFeeCryptoPrecision_def
        selectSecondHopNetworkFeeCryptoPrecision_def selectLastHopNetworkFeeCryptoPrecision_def
        Let_def)

text \<open>
  C10, amended. In every state with no confirmed quote, the active quote is the route
  of the response stored under the selected swapper and identifier. When that swapper
  is CowSwap, the network fees of the first, the second and the last hop in the
  precision of the fee asset are zero, whatever network fee the hops carry; when it
  is any other swapper, each of them is \<open>fromBaseUnit\<close> of the hop's network fee at
  the precision of the hop's fee asset, when that asset is known. The network fee of
  the first and of the second hop in user currency is, for every swapper, what
  \<open>getHopTotalNetworkFeeUserCurrencyPrecision\<close> makes of the hop's network fee, its fee
  asset and the fee asset's price, and the total is their sum.
\<close>

theorem C10_network_fee_metrics:
  assumes "selectConfirmedQuote s = None"
    and "selectActiveQuoteMetaOrDefault H s = Some m"
    and "lookupApiQuote (selectTradeQuotes s) m = Some e"
  shows "selectActiveQuote H s = quote e
       \<and> (ActiveQuoteMeta.swapperName m = CowSwap \<longrightarrow>
            selectFirstHopNetworkFeeCryptoPrecision H s = 0
            \<and> selectSecondHopNetworkFeeCryptoPrecision H s = 0
            \<and> selectLastHopNetworkFeeCryptoPrecision H s = 0)
       \<and> (ActiveQuoteMeta.swapperName m \<noteq> CowSwap \<longrightarrow>
           (\<forall>a. selectFirstHopSellFeeAsset H s = Some a \<longrightarrow>
              selectFirstHopNetworkFeeCryptoPrecision H s =
                fromBaseUnit H (bnOrZero (selectFirstHopNetworkFeeCryptoBaseUnit H s))
                  (precision a))
           \<and> (\<forall>a. selectSecondHopSellFeeAsset H s = Some a \<longrightarrow>
              selectSecondHopNetworkFeeCryptoPrecision H s =
                fromBaseUnit H (bnOrZero (selectSecondHopNetworkFeeCryptoBaseUnit H s))
                  (precision a))
           \<and> (\<forall>a. selectLastHopSellFeeAsset H s = Some a \<longrightarrow>
              selectLastHopNetworkFeeCryptoPrecision H s =
                fromBaseUnit H (bnOrZero (selectLastHopNetworkFeeCryptoBaseUnit H s))
                  (precision a)))
       \<and> (\<forall>step fa. selectFirstHop H s = Some step \<and> selectFirstHopSellFeeAsset H s = Some fa \<longrightarrow>
            selectFirstHopNetworkFeeUserCurrencyPrecision H s =
              Inr (getHopTotalNetworkFeeUserCurrencyPrecision H
                     (networkFeeCryptoBaseUnit (feeData step)) fa
                     (\<lambda>_. case fmlookup (selectMarketDataUserCurrency s) (assetId fa) of
                             None \<Rightarrow> 0 | Some md \<Rightarrow> price md)))
       \<and> (\<forall>step fa. selectSecondHop H s = Some step \<and> selectSecondHopSellFeeAsset H s = Some fa \<longrightarrow>
            selectSecondHopNetworkFeeUserCurrencyPrecision H s =
              Inr (getHopTotalNetworkFeeUserCurrencyPrecision H
                     (networkFeeCryptoBaseUnit (feeData step)) fa
                     (\<lambda>_. case fmlookup (selectMarketDataUserCurrency s) (assetId fa) of
                             None \<Rightarrow> 0 | Some md \<Rightarrow> price md)))
       \<and> (\<forall>f g. selectFirstHopNetworkFeeUserCurrencyPrecision H s = Inr f
                \<and> selectSecondHopNetworkFeeUserCurrencyPrecision H s = Inr g \<longrightarrow>
            selectTotalNetworkFeeUserCurrencyPrecision H s =
              Inr (bnOrZero f + (case g of None \<Rightarrow> 0 | Some v \<Rightarrow> v)))"
proof -
  have sw: "selectActiveSwapperName H s = Some (ActiveQuoteMeta.swapperName m)"
    using assms(2,3) by (simp add: selectActiveSwapperName_def)
  have q: "selectActiveQuote H s = quote e"
    using assms by (simp add: activeQuote_unconfirmed)
  have cow: "selectFirstHopNetworkFeeCryptoPrecision H s = 0
            \<and> selectSecondHopNetworkFeeCryptoPrecision H s = 0
            \<and> selectLastHopNetworkFeeCryptoPrecision H s = 0"
    if "ActiveQuoteMeta.swapperName m = CowSwap"
    using that sw by (intro cryptoPrecision_not_required)
      (simp add: selectNetworkFeeRequiresBalance_def)
  have other: "(\<forall>a. selectFirstHopSellFeeAsset H s = Some a \<longrightarrow>
              selectFirstHopNetworkFeeCryptoPrecision H s =
                fromBaseUnit H (bnOrZero (selectFirstHopNetworkFeeCryptoBaseUnit H s))
                  (precision a))
           \<and> (\<forall>a. selectSecondHopSellFeeAsset H s = Some a \<longrightarrow>
              selectSecondHopNetworkFeeCryptoPrecision H s =
                fromBaseUnit H (bnOrZero (selectSecondHopNetworkFeeCryptoBaseUnit H s))
                  (precision a))
           \<and> (\<forall>a. selectLastHopSellFeeAsset H s = Some a \<longrightarrow>
              selectLastHopNetworkFeeCryptoPrecision H s =
                fromBaseUnit H (bnOrZero (selectLastHopNetworkFeeCryptoBaseUnit H s))
                  (precision a))"
    if "ActiveQuoteMeta.swapperName m \<noteq> CowSwap"
    using that sw by (intro cryptoPrecision_required)
      (simp add: selectNetworkFeeRequiresBalance_def)
  have first: "\<forall>step fa. selectFirstHop H s = Some step \<and> selectFirstHopSellFeeAsset H s = Some fa \<longrightarrow>
            selectFirstHopNetworkFeeUserCurrencyPrecision H s =
              Inr (getHopTotalNetworkFeeUserCurrencyPrecision H
                     (networkFeeCryptoBaseUnit (feeData step)) fa
                     (\<lambda>_. case fmlookup (selectMarketDataUserCurrency s) (assetId fa) of
                             None \<Rightarrow> 0 | Some md \<Rightarrow> price md))"
    by (simp add: selectFirstHopNetworkFeeUserCurrencyPrecision_def
          hopNetworkFeeUserCurrencyPrecision_def Let_def)
  have second: "\<forall>step fa. selectSecondHop H s = Some step \<and> selectSecondHopSellFeeAsset H s = Some fa \<longrightarrow>
            selectSecondHopNetworkFeeUserCurrencyPrecision H s =
              Inr (getHopTotalNetworkFeeUserCurrencyPrecision H
                     (networkFeeCryptoBaseUnit (feeData step)) fa
                     (\<lambda>_. case fmlookup (selectMarketDataUserCurrency s) (assetId fa) of
                             None \<Rightarrow> 0 | Some md \<Rightarrow> price md))"
    by (simp add: selectSecondHopNetworkFeeUserCurrencyPrecision_def
          hopNetworkFeeUserCurrencyPrecision_def Let_def)
  have total: "\<forall>f g. selectFirstHopNetworkFeeUserCurrencyPrecision H s = Inr f
                \<and> selectSecondHopNetworkFeeUserCurrencyPrecision H s = Inr g \<longrightarrow>
            selectTotalNetworkFeeUserCurrencyPrecision H s =
              Inr (bnOrZero f + (case g of None \<Rightarrow> 0 | Some v \<Rightarrow> v))"
    by (simp add: selectTotalNetworkFeeUserCurrencyPrecision_def)
  from q cow other first second total show ?thesis by blast
qed

text \<open>
  The same route, with a network fee of 2000000 base units, a fee asset of precision 6
  and price 3: active through CowSwap its fee in the fee asset's precision is 0,
  active through the bridge it is 2; in user currency it is 6 both times.
\<close>

theorem C10_network_fee_metrics_witness:
  "selectFirstHopNetworkFeeCryptoBaseUnit exampleHelpers
       (exampleState cowQuoted None None (Some 100)) = Some 2000000
   \<and> selectFirstHopNetworkFeeCryptoPrecision exampleHelpers
       (exampleState cowQuoted None None (Some 100)) = 0
   \<and> selectSecondHopNetworkFeeCryptoPrecision exampleHelpers
       (exampleState cowQuoted None None (Some 100)) = 0
   \<and> selectLastHopNetworkFeeCryptoPrecision exampleHelpers
       (exampleState cowQuoted None None (Some 100)) = 0
   \<and> selectFirstHopNetworkFeeUserCurrencyPrecision exampleHelpers
       (exampleState cowQuoted None None (Some 100)) = Inr (Some 6)
   \<and> selectFirstHopNetworkFeeCryptoPrecision pinOrTopHelpers
       (exampleState bothQuoted (Some (exampleMeta ArbitrumBridge ''arb-1'')) None (Some 100)) = 2
   \<and> selectLastHopNetworkFeeCryptoPrecision pinOrTopHelpers
       (exampleState bothQuoted (Some (exampleMeta ArbitrumBridge ''arb-1'')) None (Some 100)) = 2
   \<and> selectFirstHopNetworkFeeUserCurrencyPrecision pinOrTopHelpers
       (exampleState bothQuoted (Some (exampleMeta ArbitrumBridge ''arb-1'')) None (Some 100))
     = Inr (Some 6)"
proof -
  let ?cow = "exampleState cowQuoted None None (Some 100)"
  let ?arb = "exampleState bothQuoted (Some (exampleMeta ArbitrumBridge ''arb-1'')) None (Some 100)"
  let ?eth = "exampleAsset ''eth'' ''eip155:1'' 6"
  have cl: "lookupApiQuote (selectTradeQuotes ?cow) (exampleMeta CowSwap ''cow-1'')
      = Some (exampleApiQuote CowSwap ''cow-1'' (Some (exampleQuote CowSwap ''cow-1'')))"
    by (simp add: example_state_selectors lookup_cowQuoted)
  have al: "lookupApiQuote (selectTradeQuotes ?arb) (exampleMeta ArbitrumBridge ''arb-1'')
      = Some (exampleApiQuote ArbitrumBridge ''arb-1''
                (Some (exampleQuote ArbitrumBridge ''arb-1'')))"
    by (simp add: example_state_selectors lookup_bothQuoted_arb)
  note cow = C10_network_fee_metrics [OF example_state_selectors(1) cow_selected cl]
  note arb = C10_network_fee_metrics [OF example_state_selectors(1) arb_selected al]
  have csw: "ActiveQuoteMeta.swapperName (exampleMeta CowSwap ''cow-1'') = CowSwap"
    and asw: "ActiveQuoteMeta.swapperName (exampleMeta ArbitrumBridge ''arb-1'') \<noteq> CowSwap"
    by (simp_all add: exampleMeta_def)
  have cfee: "selectFirstHopNetworkFeeCryptoBaseUnit exampleHelpers ?cow = Some 2000000"
    by (simp add: hop_defs cow_quote) (simp add: example_defs)
  have cstep: "selectFirstHop exampleHelpers ?cow = Some (exampleStep CowSwap (Some 2000000))"
    by (simp add: hop_defs cow_quote) (simp add: exampleQuote_def)
  have cfa: "selectFirstHopSellFeeAsset exampleHelpers ?cow = Some ?eth"
    by (simp add: hop_defs cow_quote) (simp add: example_defs)
  have astep: "selectFirstHop pinOrTopHelpers ?arb
                 = Some (exampleStep ArbitrumBridge (Some 2000000))"
    by (simp add: hop_defs arb_quote) (simp add: exampleQuote_def)
  have afa: "selectFirstHopSellFeeAsset pinOrTopHelpers ?arb = Some ?eth"
    by (simp add: hop_defs arb_quote) (simp add: example_defs)
  have ala: "selectLastHopSellFeeAsset pinOrTopHelpers ?arb = Some ?eth"
    by (simp add: hop_defs arb_quote) (simp add: example_defs)
  have aff: "fromBaseUnit pinOrTopHelpers
               (bnOrZero (selectFirstHopNetworkFeeCryptoBaseUnit pinOrTopHelpers ?arb))
               (precision ?eth) = 2"
    by (simp add: hop_defs arb_quote)
       (simp add: example_defs pinOrTopHelpers_def bnOrZero_def specFromBaseUnit_def)
  have alf: "fromBaseUnit pinOrTopHelpers
               (bnOrZero (selectLastHopNetworkFeeCryptoBaseUnit pinOrTopHelpers ?arb))
               (precision ?eth) = 2"
    by (simp add: hop_defs arb_quote)
       (simp add: example_defs pinOrTopHelpers_def bnOrZero_def specFromBaseUnit_def)
  have cuc: "getHopTotalNetworkFeeUserCurrencyPrecision exampleHelpers
               (networkFeeCryptoBaseUnit (feeData (exampleStep CowSwap (Some 2000000)))) ?eth
               (\<lambda>_. case fmlookup (selectMarketDataUserCurrency ?cow) (assetId ?eth) of
                       None \<Rightarrow> 0 | Some md \<Rightarrow> price md) = Some 6"
    by (simp add: example_defs specGetHopTotalNetworkFeeUserCurrencyPrecision_def
          specFromBaseUnit_def)
  have auc: "getHopTotalNetworkFeeUserCurrencyPrecision pinOrTopHelpers
               (networkFeeCryptoBaseUnit (feeData (exampleStep ArbitrumBridge (Some 2000000)))) ?eth
               (\<lambda>_. case fmlookup (selectMarketDataUserCurrency ?arb) (assetId ?eth) of
                       None \<Rightarrow> 0 | Some md \<Rightarrow> price md) = Some 6"
    by (simp add: example_defs pinOrTopHelpers_def
          specGetHopTotalNetworkFeeUserCurrencyPrecision_def specFromBaseUnit_def)
  from cow csw have c0: "selectFirstHopNetworkFeeCryptoPrecision exampleHelpers ?cow = 0
      \<and> selectSecondHopNetworkFeeCryptoPrecision exampleHelpers ?cow = 0
      \<and> selectLastHopNetworkFeeCryptoPrecision exampleHelpers ?cow = 0"
    by blast
  from cow cstep cfa cuc
  have c6: "selectFirstHopNetworkFeeUserCurrencyPrecision exampleHelpers ?cow = Inr (Some 6)"
    by metis
  from arb asw afa aff
  have a2: "selectFirstHopNetworkFeeCryptoPrecision pinOrTopHelpers ?arb = 2"
    by metis
  from arb asw ala alf
  have a2l: "selectLastHopNetworkFeeCryptoPrecision pinOrTopHelpers ?arb = 2"
    by metis
  from arb astep afa auc
  have a6: "selectFirstHopNetworkFeeUserCurrencyPrecision pinOrTopHelpers ?arb = Inr (Some 6)"
    by metis
  from cfee c0 c6 a2 a2l a6 show ?thesis by simp
qed

section \<open>The event handlers of a hop execution\<close>

text \<open>
  C6. A \<open>Fail\<close> and an \<open>Error\<close> event are both handled by \<open>onFail\<close>, which dispatches the
  failure message and the failed state for the hop index of the execution and nothing
  else: that hop becomes \<open>Failed\<close> with the message stored, the execution state of the
  other hop is unchanged, the error is shown, and the promise is resolved.
\<close>

theorem C6_failure_marks_hop_failed:
  "handleEvent hopIndex t c (Fail e) = onFail hopIndex e c
   \<and> handleEvent hopIndex t c (Error e) = onFail hopIndex e c
   \<and> dispatched (onFail hopIndex e c)
       = dispatched c @ [setSwapTxMessage hopIndex (thrownMessage e), setSwapTxFailed hopIndex]
   \<and> hopOf (store (onFail hopIndex e c)) hopIndex
       = (hopOf (store c) hopIndex)
           \<lparr>state := Failed, HopExecutionMetadata.message := thrownMessage e\<rparr>
   \<and> (\<forall>k. (k = 0) \<noteq> (hopIndex = 0) \<longrightarrow>
         hopOf (store (onFail hopIndex e c)) k = hopOf (store c) k)
   \<and> errorToasts (onFail hopIndex e c) = errorToasts c @ [e]
   \<and> resolved (onFail hopIndex e c)"
  by (auto simp: handler_defs thrownMessage_def Let_def split: option.splits Thrown.splits)

text \<open>
  The second hop of a trade whose first hop has succeeded receives a broadcast failure.
\<close>

theorem C6_failure_marks_hop_failed_witness:
  "state (firstHop (store (handleEvent 1 ''ok''
      (startExecution 1 (idleTradeExecution\<lparr>firstHop := idleHop\<lparr>state := Succeeded\<rparr>\<rparr>))
      (Fail (Some (Thrown (Some ''broadcast rejected''))))))) = Succeeded
   \<and> state (secondHop (store (handleEvent 1 ''ok''
      (startExecution 1 (idleTradeExecution\<lparr>firstHop := idleHop\<lparr>state := Succeeded\<rparr>\<rparr>))
      (Fail (Some (Thrown (Some ''broadcast rejected''))))))) = Failed
   \<and> HopExecutionMetadata.message (secondHop (store (handleEvent 1 ''ok''
      (startExecution 1 (idleTradeExecution\<lparr>firstHop := idleHop\<lparr>state := Succeeded\<rparr>\<rparr>))
      (Fail (Some (Thrown (Some ''broadcast rejected''))))))) = Some ''broadcast rejected''
   \<and> resolved (handleEvent 1 ''ok''
      (startExecution 1 (idleTradeExecution\<lparr>firstHop := idleHop\<lparr>state := Succeeded\<rparr>\<rparr>))
      (Fail (Some (Thrown (Some ''broadcast rejected'')))))"
proof -
  let ?c = "startExecution 1 (idleTradeExecution\<lparr>firstHop := idleHop\<lparr>state := Succeeded\<rparr>\<rparr>)"
  let ?e = "Some (Thrown (Some ''broadcast rejected''))"
  note th = C6_failure_marks_hop_failed [of 1 "''ok''" ?c ?e]
  have k: "(0 = (0::nat)) \<noteq> ((1::nat) = 0)" by simp
  from th k have other: "hopOf (store (onFail 1 ?e ?c)) 0 = hopOf (store ?c) 0" by blast
  have f: "firstHop (store ?c) = idleHop\<lparr>state := Succeeded\<rparr>"
    by (simp add: startExecution_def handler_defs idleTradeExecution_def)
  from th other f show ?thesis
    by (simp add: hopOf_def thrownMessage_def)
qed

text \<open>
  The \<open>Status\<close> handler dispatches the message and nothing else, whatever \<open>buyTxHash\<close>
  the event carries: the buy transaction identifier of neither hop changes.
\<close>

lemma onStatus_dispatches_message_only:
  "dispatched (onStatus hopIndex b m c) = dispatched c @ [setSwapTxMessage hopIndex m]
   \<and> buyTxHash (firstHop (store (onStatus hopIndex b m c))) = buyTxHash (firstHop (store c))
   \<and> buyTxHash (secondHop (store (onStatus hopIndex b m c))) = buyTxHash (secondHop (store c))"
  by (simp add: handler_defs Let_def)

text \<open>
  C5. The code at the failing input: after the sell transaction hash and a \<open>Status\<close>
  event with the buy transaction hash \<open>0xbuy\<close> and the message \<open>confirming\<close>, the
  message is stored and the closure's \<open>txHash\<close> is \<open>0xbuy\<close>, but no \<open>setSwapBuyTxHash\<close>
  has been dispatched and the hop's buy transaction identifier is still absent.
\<close>

theorem C5_buy_tx_hash_is_not_dispatched:
  "dispatched (runEvents 0 ''ok'' idleTradeExecution
       [SellTxHash ''0xsell'', Status (Some ''0xbuy'') (Some ''confirming'')])
     = [setSwapTxPending 0, setSwapSellTxHash 0 ''0xsell'', setSwapTxMessage 0 (Some ''confirming'')]
   \<and> buyTxHash (hopOf (store (runEvents 0 ''ok'' idleTradeExecution
       [SellTxHash ''0xsell'', Status (Some ''0xbuy'') (Some ''confirming'')])) 0) = None
   \<and> HopExecutionMetadata.message (hopOf (store (runEvents 0 ''ok'' idleTradeExecution
       [SellTxHash ''0xsell'', Status (Some ''0xbuy'') (Some ''confirming'')])) 0)
     = Some ''confirming''
   \<and> txHash (runEvents 0 ''ok'' idleTradeExecution
       [SellTxHash ''0xsell'', Status (Some ''0xbuy'') (Some ''confirming'')]) = Some ''0xbuy''"
  by (simp add: runEvents_def startExecution_def handler_defs truthy_def Let_def
        idleTradeExecution_def idleHop_def)

text \<open>
  C4 as stated fails: the execution emits the sell transaction hash and then
  succeeds, no buy transaction hash having been observed; no error is shown and the
  hop is marked complete.
\<close>

theorem C4_sell_hash_alone_counterexample:
  "errorToasts (runEvents 0 ''ok'' idleTradeExecution [SellTxHash ''0xsell'', Success]) = []
   \<and> buyTxHash (hopOf (store (runEvents 0 ''ok'' idleTradeExecution
        [SellTxHash ''0xsell'', Success])) 0) = None
   \<and> state (hopOf (store (runEvents 0 ''ok'' idleTradeExecution
        [SellTxHash ''0xsell'', Success])) 0) = Succeeded
   \<and> resolved (runEvents 0 ''ok'' idleTradeExecution [SellTxHash ''0xsell'', Success])"
  by (simp add: runEvents_def startExecution_def handler_defs truthy_def Let_def
        idleTradeExecution_def idleHop_def)

lemma noTxHashObserved_start: "noTxHashObserved hopIndex (startExecution hopIndex te)"
  by (simp add: noTxHashObserved_def startExecution_def handler_defs truthy_def)

lemma noTxHashObserved_step:
  "noTxHashObserved hopIndex c \<Longrightarrow> carriesNoTxHash ev \<Longrightarrow>
     noTxHashObserved hopIndex (handleEvent hopIndex t c ev)"
  by (cases ev) (auto simp: noTxHashObserved_def handler_defs truthy_def Let_def)

lemma noTxHashObserved_foldl:
  "noTxHashObserved hopIndex c \<Longrightarrow> list_all carriesNoTxHash evs \<Longrightarrow>
     noTxHashObserved hopIndex (foldl (handleEvent hopIndex t) c evs)"
  by (induction evs arbitrary: c) (simp_all add: noTxHashObserved_step)

lemma onSuccess_without_txHash:
  assumes "noTxHashObserved hopIndex c"
  shows "errorToasts (onSuccess hopIndex t c) = [Some (Thrown (Some ''missing txHash''))]
       \<and> resolved (onSuccess hopIndex t c)
       \<and> setSwapTxComplete hopIndex \<notin> set (dispatched (onSuccess hopIndex t c))
       \<and> state (hopOf (store (onSuccess hopIndex t c)) hopIndex) \<noteq> Succeeded"
  using assms by (simp add: noTxHashObserved_def onSuccess_def showErrorToast_def resolve_def)

text \<open>
  C4, amended. For every hop execution that reaches \<open>Success\<close> without any transaction
  identifier having been observed (the events before it are \<open>Status\<close> events without a
  buy transaction hash and sell transaction hash events with an empty hash), the
  error \<open>missing txHash\<close> is shown, the promise is resolved, and the hop is not marked
  complete.
\<close>

theorem C4_missing_tx_hash_is_reported:
  assumes "list_all carriesNoTxHash evs"
  shows "errorToasts (runEvents hopIndex t te (evs @ [Success]))
           = [Some (Thrown (Some ''missing txHash''))]
       \<and> resolved (runEvents hopIndex t te (evs @ [Success]))
       \<and> setSwapTxComplete hopIndex \<notin> set (dispatched (runEvents hopIndex t te (evs @ [Success])))
       \<and> state (hopOf (store (runEvents hopIndex t te (evs @ [Success]))) hopIndex) \<noteq> Succeeded"
proof -
  have "noTxHashObserved hopIndex (foldl (handleEvent hopIndex t) (startExecution hopIndex te) evs)"
    using noTxHashObserved_start assms by (rule noTxHashObserved_foldl)
  from onSuccess_without_txHash [OF this] show ?thesis
    by (simp add: runEvents_def)
qed

theorem C4_missing_tx_hash_is_reported_witness:
  "list_all carriesNoTxHash [Status None (Some ''waiting''), SellTxHash '''']
   \<and> errorToasts (runEvents 0 ''ok'' idleTradeExecution
        ([Status None (Some ''waiting''), SellTxHash ''''] @ [Success]))
      = [Some (Thrown (Some ''missing txHash''))]
   \<and> state (hopOf (store (runEvents 0 ''ok'' idleTradeExecution
        ([Status None (Some ''waiting''), SellTxHash ''''] @ [Success]))) 0) \<noteq> Succeeded"
proof -
  have h: "list_all carriesNoTxHash [Status None (Some ''waiting''), SellTxHash '''']"
    by (simp add: truthy_def)
  from C4_missing_tx_hash_is_reported [OF h, of 0 "''ok''" idleTradeExecution] h
  show ?thesis by simp
qed

section \<open>The chain-family dispatch\<close>

text \<open>What \<open>executeTrade\<close> has done by the time its executor reaches the dispatch.\<close>

lemma startExecution_context:
  "dispatched (startExecution hopIndex te) = [setSwapTxPending hopIndex]
   \<and> errorToasts (startExecution hopIndex te) = []
   \<and> \<not> resolved (startExecution hopIndex te)"
  by (simp add: startExecution_def dispatch_def)

lemma example_namespaces:
  "fromChainId exampleCapabilities ''eip155:1'' = Evm"
  "fromChainId exampleCapabilities ''bip122:000000000019d6689c085ae165831e93'' = Utxo"
  "fromChainId exampleCapabilities ''cosmos:cosmoshub-4'' = CosmosSdk"
  "fromChainId exampleCapabilities ''solana:mainnet'' = OtherNamespace ''solana''"
  by (simp_all add: exampleCapabilities_def exampleFromChainId_def)

text \<open>
  C8 as stated fails: the sell asset's chain is of the UTXO family, which the
  \<open>switch\<close> recognises, the account has no account type, and no strategy is selected.
  The executor throws after the promise has been handed out: \<open>executeTrade\<close> itself
  does not throw, the hop has been set pending, nothing has been resolved and no
  error has been shown.
\<close>

theorem C8_utxo_without_account_type_counterexample:
  "fromChainId exampleCapabilities ''bip122:000000000019d6689c085ae165831e93'' = Utxo
   \<and> executeTrade exampleCapabilities 0 idleTradeExecution
       (exampleHookInputs (OtherSwapper ''THORChain'')
          ''bip122:000000000019d6689c085ae165831e93'' None)
     = Promised (startExecution 0 idleTradeExecution) (ExecutorThrew MissingUtxoAccountType)
   \<and> dispatched (startExecution 0 idleTradeExecution) = [setSwapTxPending 0]
   \<and> errorToasts (startExecution 0 idleTradeExecution) = []
   \<and> \<not> resolved (startExecution 0 idleTradeExecution)"
  by (simp add: example_namespaces startExecution_context)
     (simp add: executeTrade_def exampleHookInputs_def exampleQuote_def exampleStep_def
        exampleAsset_def example_namespaces truthy_def)

text \<open>
  C8, amended. Take a call of \<open>executeTrade\<close> that passes its five guards, on a quote
  that has the hop. It returns the promise, with the hop set pending and nothing
  resolved or shown, and its executor ends as follows. For CowSwap, once the EVM
  adapter and the address are obtained, it reaches \<open>execEvmMessage\<close> with that
  address. For every other swapper it goes by the namespace of the chain of the
  hop's sell asset: EVM reaches \<open>execEvmTransaction\<close>, UTXO with an account type
  \<open>execUtxoTransaction\<close>, Cosmos SDK \<open>execCosmosSdkTransaction\<close>, each once the
  adapter, the addresses and keys it asks for are obtained; UTXO without an account
  type throws \<open>Missing UTXO account type\<close>; a namespace outside the three reaches
  \<open>assertUnreachable\<close>, and what that throws leaves the executor. Conversely, a
  strategy is started only in one of the four families, and it is that family's.
\<close>

theorem C8_dispatch_by_chain_family:
  assumes "wallet i" and "accountMetadata i = Some am" and "tradeQuote i = Some tq"
    and "HookInputs.swapperName i = Some sw" and "truthy (sellAssetAccountId i)"
    and "hopIndex < length (steps tq)"
    and "step = steps tq ! hopIndex"
    and "cid = Asset.chainId (TradeQuoteStep.sellAsset step)"
    and "receiver = hopReceiverAddress caps tq (assetId (TradeQuoteStep.buyAsset step))"
  shows "(\<exists>outcome. executeTrade caps hopIndex te i
                      = Promised (startExecution hopIndex te) outcome)
       \<and> dispatched (startExecution hopIndex te) = [setSwapTxPending hopIndex]
       \<and> errorToasts (startExecution hopIndex te) = []
       \<and> \<not> resolved (startExecution hopIndex te)
       \<and> (\<forall>adapter a.
            sw = CowSwap \<and> assertGetEvmChainAdapter caps cid = Inr adapter
            \<and> getAddress adapter (bip44AccountNumber am) None = Inr a \<longrightarrow>
            executeTrade caps hopIndex te i
              = Promised (startExecution hopIndex te) (Started (execEvmMessage a)))
       \<and> (\<forall>adapter a b.
            sw \<noteq> CowSwap \<and> fromChainId caps cid = Evm
            \<and> assertGetEvmChainAdapter caps cid = Inr adapter
            \<and> getAddress adapter (bip44AccountNumber am) None = Inr a
            \<and> ethSupportsEIP1559 caps = Inr b \<longrightarrow>
            executeTrade caps hopIndex te i
              = Promised (startExecution hopIndex te) (Started (execEvmTransaction a b receiver)))
       \<and> (\<forall>utxoAccountType adapter xpub a.
            sw \<noteq> CowSwap \<and> fromChainId caps cid = Utxo
            \<and> accountType am = Some utxoAccountType
            \<and> assertGetUtxoChainAdapter caps cid = Inr adapter
            \<and> getPublicKey adapter (bip44AccountNumber am) utxoAccountType = Inr xpub
            \<and> getAddress adapter (bip44AccountNumber am) (Some utxoAccountType) = Inr a \<longrightarrow>
            executeTrade caps hopIndex te i
              = Promised (startExecution hopIndex te)
                  (Started (execUtxoTransaction xpub utxoAccountType
                              (hopSenderAddress caps (assetId (TradeQuoteStep.sellAsset step)) a)
                              receiver)))
       \<and> (sw \<noteq> CowSwap \<and> fromChainId caps cid = Utxo \<and> accountType am = None \<longrightarrow>
            executeTrade caps hopIndex te i
              = Promised (startExecution hopIndex te) (ExecutorThrew MissingUtxoAccountType))
       \<and> (\<forall>adapter a.
            sw \<noteq> CowSwap \<and> fromChainId caps cid = CosmosSdk
            \<and> assertGetCosmosSdkChainAdapter caps cid = Inr adapter
            \<and> getAddress adapter (bip44AccountNumber am) None = Inr a \<longrightarrow>
            executeTrade caps hopIndex te i
              = Promised (startExecution hopIndex te)
                  (Started (execCosmosSdkTransaction a (TradeQuote.receiveAddress tq))))
       \<and> (\<forall>n thrown.
            sw \<noteq> CowSwap \<and> fromChainId caps cid = OtherNamespace n
            \<and> assertUnreachable caps n = Inl thrown \<longrightarrow>
            executeTrade caps hopIndex te i
              = Promised (startExecution hopIndex te) (ExecutorThrew (CapabilityFailed thrown)))
       \<and> (\<forall>c strategy.
            executeTrade caps hopIndex te i = Promised c (Started strategy) \<longrightarrow>
              (sw = CowSwap \<and> (\<exists>a. strategy = execEvmMessage a))
            \<or> (sw \<noteq> CowSwap \<and> fromChainId caps cid = Evm
                \<and> (\<exists>a b. strategy = execEvmTransaction a b receiver))
            \<or> (sw \<noteq> CowSwap \<and> fromChainId caps cid = Utxo \<and> accountType am \<noteq> None
                \<and> (\<exists>xpub utxoAccountType a.
                      strategy = execUtxoTransaction xpub utxoAccountType a receiver))
            \<or> (sw \<noteq> CowSwap \<and> fromChainId caps cid = CosmosSdk
                \<and> (\<exists>a. strategy = execCosmosSdkTransaction a (TradeQuote.receiveAddress tq))))"
proof -
  have promised: "\<exists>outcome. executeTrade caps hopIndex te i
                      = Promised (startExecution hopIndex te) outcome"
    using assms(1-5) by (simp add: executeTrade_def)
  have cow: "\<forall>adapter a.
            sw = CowSwap \<and> assertGetEvmChainAdapter caps cid = Inr adapter
            \<and> getAddress adapter (bip44AccountNumber am) None = Inr a \<longrightarrow>
            executeTrade caps hopIndex te i
              = Promised (startExecution hopIndex te) (Started (execEvmMessage a))"
    using assms by (simp add: executeTrade_def await_def Let_def)
  have evm: "\<forall>adapter a b.
            sw \<noteq> CowSwap \<and> fromChainId caps cid = Evm
            \<and> assertGetEvmChainAdapter caps cid = Inr adapter
            \<and> getAddress adapter (bip44AccountNumber am) None = Inr a
            \<and> ethSupportsEIP1559 caps = Inr b \<longrightarrow>
            executeTrade caps hopIndex te i
              = Promised (startExecution hopIndex te) (Started (execEvmTransaction a b receiver))"
    using assms by (simp add: executeTrade_def await_def Let_def)
  have utxo: "\<forall>utxoAccountType adapter xpub a.
            sw \<noteq> CowSwap \<and> fromChainId caps cid = Utxo
            \<and> accountType am = Some utxoAccountType
            \<and> assertGetUtxoChainAdapter caps cid = Inr adapter
            \<and> getPublicKey adapter (bip44AccountNumber am) utxoAccountType = Inr xpub
            \<and> getAddress adapter (bip44AccountNumber am) (Some utxoAccountType) = Inr a \<longrightarrow>
            executeTrade caps hopIndex te i
              = Promised (startExecution hopIndex te)
                  (Started (execUtxoTransaction xpub utxoAccountType
                              (hopSenderAddress caps (assetId (TradeQuoteStep.sellAsset step)) a)
                              receiver))"
    using assms by (simp add: executeTrade_def await_def Let_def)
  have utxoNone: "sw \<noteq> CowSwap \<and> fromChainId caps cid = Utxo \<and> accountType am = None \<longrightarrow>
            executeTrade caps hopIndex te i
              = Promised (startExecution hopIndex te) (ExecutorThrew MissingUtxoAccountType)"
    using assms by (simp add: executeTrade_def await_def Let_def)
  have cosmos: "\<forall>adapter a.
            sw \<noteq> CowSwap \<and> fromChainId caps cid = CosmosSdk
            \<and> assertGetCosmosSdkChainAdapter caps cid = Inr adapter
            \<and> getAddress adapter (bip44AccountNumber am) None = Inr a \<longrightarrow>
            executeTrade caps hopIndex te i
              = Promised (startExecution hopIndex te)
                  (Started (execCosmosSdkTransaction a (TradeQuote.receiveAddress tq)))"
    using assms by (simp add: executeTrade_def await_def Let_def)
  have other: "\<forall>n thrown.
            sw \<noteq> CowSwap \<and> fromChainId caps cid = OtherNamespace n
            \<and> assertUnreachable caps n = Inl thrown \<longrightarrow>
            executeTrade caps hopIndex te i
              = Promised (startExecution hopIndex te) (ExecutorThrew (CapabilityFailed thrown))"
    using assms by (simp add: executeTrade_def await_def Let_def)
  have only: "\<forall>c strategy.
            executeTrade caps hopIndex te i = Promised c (Started strategy) \<longrightarrow>
              (sw = CowSwap \<and> (\<exists>a. strategy = execEvmMessage a))
            \<or> (sw \<noteq> CowSwap \<and> fromChainId caps cid = Evm
                \<and> (\<exists>a b. strategy = execEvmTransaction a b receiver))
            \<or> (sw \<noteq> CowSwap \<and> fromChainId caps cid = Utxo \<and> accountType am \<noteq> None
                \<and> (\<exists>xpub utxoAccountType a.
                      strategy = execUtxoTransaction xpub utxoAccountType a receiver))
            \<or> (sw \<noteq> CowSwap \<and> fromChainId caps cid = CosmosSdk
                \<and> (\<exists>a. strategy = execCosmosSdkTransaction a (TradeQuote.receiveAddress tq)))"
    using assms
    by (auto simp add: executeTrade_def await_def Let_def
          split: sum.splits option.splits ChainNamespace.splits if_splits)
  from promised startExecution_context [of hopIndex te] cow evm utxo utxoNone cosmos other only
  show ?thesis by blast
qed

text \<open>
  One quote of one hop, sold from four chains and through two swappers: CowSwap on
  an EVM chain signs a message; another swapper broadcasts an EVM, a UTXO (the
  account has an account type) or a Cosmos SDK transaction; on a chain whose
  namespace is none of the three, \<open>assertUnreachable\<close> throws inside the executor.
\<close>

theorem C8_dispatch_by_chain_family_witness:
  "executeTrade exampleCapabilities 0 idleTradeExecution
       (exampleHookInputs CowSwap ''eip155:1'' None)
     = Promised (startExecution 0 idleTradeExecution) (Started (execEvmMessage ''0xsender''))
   \<and> executeTrade exampleCapabilities 0 idleTradeExecution
       (exampleHookInputs ArbitrumBridge ''eip155:1'' None)
     = Promised (startExecution 0 idleTradeExecution)
         (Started (execEvmTransaction ''0xsender'' True ''0xreceiver''))
   \<and> executeTrade exampleCapabilities 0 idleTradeExecution
       (exampleHookInputs (OtherSwapper ''THORChain'')
          ''bip122:000000000019d6689c085ae165831e93'' (Some ''P2WPKH''))
     = Promised (startExecution 0 idleTradeExecution)
         (Started (execUtxoTransaction ''xpub-1'' ''P2WPKH'' ''bc1sender'' ''0xreceiver''))
   \<and> executeTrade exampleCapabilities 0 idleTradeExecution
       (exampleHookInputs (OtherSwapper ''THORChain'') ''cosmos:cosmoshub-4'' None)
     = Promised (startExecution 0 idleTradeExecution)
         (Started (execCosmosSdkTransaction ''cosmos1sender'' ''0xreceiver''))
   \<and> executeTrade exampleCapabilities 0 idleTradeExecution
       (exampleHookInputs (OtherSwapper ''THORChain'') ''solana:mainnet'' None)
     = Promised (startExecution 0 idleTradeExecution)
         (ExecutorThrew (CapabilityFailed ''unhandled case: solana''))"
proof -
  let ?q = "\<lambda>sw c. (exampleQuote sw ''q-1'')
                 \<lparr>steps := [(exampleStep sw (Some 2000000))
                              \<lparr>TradeQuoteStep.sellAsset := exampleAsset ''sell'' c 8\<rparr>]\<rparr>"
  let ?s = "\<lambda>sw c. (exampleStep sw (Some 2000000))
                              \<lparr>TradeQuoteStep.sellAsset := exampleAsset ''sell'' c 8\<rparr>"
  have inputs:
    "wallet (exampleHookInputs sw c ty)"
    "accountMetadata (exampleHookInputs sw c ty)
       = Some \<lparr> accountType = ty, bip44AccountNumber = 0 \<rparr>"
    "tradeQuote (exampleHookInputs sw c ty) = Some (?q sw c)"
    "HookInputs.swapperName (exampleHookInputs sw c ty) = Some sw"
    "truthy (sellAssetAccountId (exampleHookInputs sw c ty))"
    "0 < length (steps (?q sw c))"
    "?s sw c = steps (?q sw c) ! 0"
    "c = Asset.chainId (TradeQuoteStep.sellAsset (?s sw c))"
    "''0xreceiver''
       = hopReceiverAddress exampleCapabilities (?q sw c)
           (assetId (TradeQuoteStep.buyAsset (?s sw c)))"
    for sw c ty
    by (simp_all add: exampleHookInputs_def truthy_def exampleAsset_def exampleQuote_def
          exampleStep_def hopReceiverAddress_def exampleCapabilities_def)
  note th = C8_dispatch_by_chain_family [OF inputs, where te = idleTradeExecution]
  have caps:
    "assertGetEvmChainAdapter exampleCapabilities c = Inr (exampleAdapter ''0xsender'')"
    "assertGetUtxoChainAdapter exampleCapabilities c = Inr (exampleAdapter ''bc1sender'')"
    "assertGetCosmosSdkChainAdapter exampleCapabilities c
       = Inr (exampleAdapter ''cosmos1sender'')"
    "ethSupportsEIP1559 exampleCapabilities = Inr True"
    "assertUnreachable exampleCapabilities n = Inl (''unhandled case: '' @ n)"
    "getAddress (exampleAdapter a) k t = Inr a"
    "getPublicKey (exampleAdapter a) k u = Inr ''xpub-1''"
    for c n a k t u
    by (simp_all add: exampleCapabilities_def exampleAdapter_def)
  have sender: "hopSenderAddress exampleCapabilities (assetId (exampleAsset ''sell'' c 8)) a = a"
    for c a
    by (simp add: hopSenderAddress_def exampleCapabilities_def exampleAsset_def)
  have 1: "executeTrade exampleCapabilities 0 idleTradeExecution
       (exampleHookInputs CowSwap ''eip155:1'' None)
     = Promised (startExecution 0 idleTradeExecution) (Started (execEvmMessage ''0xsender''))"
    using th [of CowSwap "''eip155:1''" None] by (auto simp add: caps)
  have 2: "executeTrade exampleCapabilities 0 idleTradeExecution
       (exampleHookInputs ArbitrumBridge ''eip155:1'' None)
     = Promised (startExecution 0 idleTradeExecution)
         (Started (execEvmTransaction ''0xsender'' True ''0xreceiver''))"
    using th [of ArbitrumBridge "''eip155:1''" None]
    by (auto simp add: caps example_namespaces)
  have 3: "executeTrade exampleCapabilities 0 idleTradeExecution
       (exampleHookInputs (OtherSwapper ''THORChain'')
          ''bip122:000000000019d6689c085ae165831e93'' (Some ''P2WPKH''))
     = Promised (startExecution 0 idleTradeExecution)
         (Started (execUtxoTransaction ''xpub-1'' ''P2WPKH'' ''bc1sender'' ''0xreceiver''))"
    using th [of "OtherSwapper ''THORChain''" "''bip122:000000000019d6689c085ae165831e93''"
                 "Some ''P2WPKH''"]
    by (auto simp add: caps example_namespaces sender)
  have 4: "executeTrade exampleCapabilities 0 idleTradeExecution
       (exampleHookInputs (OtherSwapper ''THORChain'') ''cosmos:cosmoshub-4'' None)
     = Promised (startExecution 0 idleTradeExecution)
         (Started (execCosmosSdkTransaction ''cosmos1sender'' ''0xreceiver''))"
    using th [of "OtherSwapper ''THORChain''" "''cosmos:cosmoshub-4''" None]
    by (auto simp add: caps example_namespaces exampleQuote_def)
  have 5: "executeTrade exampleCapabilities 0 idleTradeExecution
       (exampleHookInputs (OtherSwapper ''THORChain'') ''solana:mainnet'' None)
     = Promised (startExecution 0 idleTradeExecution)
         (ExecutorThrew (CapabilityFailed ''unhandled case: solana''))"
    using th [of "OtherSwapper ''THORChain''" "''solana:mainnet''" None]
    by (auto simp add: caps example_namespaces)
  from 1 2 3 4 5 show ?thesis by simp
qed

end
